theory Spec2Isabelle
  imports Main
begin

section \<open>The gittuf terminal console (package tui): model and update function\<close>

text \<open>
  A shallow embedding of \<^verbatim>\<open>internal/cmd/tui/update.go\<close> and of the model file of the same
  package (screens, model, form initialisation, list refresh).

  Conventions.
  \<^item> A Go \<^verbatim>\<open>string\<close> is the list of its characters; a \<^typ>\<open>char\<close> stands for a code point
    in U+0000..U+00FF.
  \<^item> A Go \<^verbatim>\<open>int\<close> or \<^verbatim>\<open>uint64\<close> is an \<^typ>\<open>int\<close>; the only place where the 64-bit range
    matters is \<^verbatim>\<open>strconv.Atoi\<close>, where the range checks are written out.
  \<^item> A Go \<^verbatim>\<open>error\<close> is a \<^typ>\<open>string option\<close>: \<open>None\<close> is \<^verbatim>\<open>nil\<close>, \<open>Some e\<close> is an error
    that \<^verbatim>\<open>%v\<close> prints as \<open>e\<close>.
  \<^item> An index out of range panics in Go; every indexing of the source is a branch of the
    model that returns \<open>Inl IndexOutOfRange\<close>.
  \<^item> The receiver \<^verbatim>\<open>m\<close> is passed and returned; the repository behind \<^verbatim>\<open>m.options\<close> is an
    explicit store that is threaded through every call, together with the log of the calls
    made to it.
\<close>

subsection \<open>Strings: the library functions the source calls\<close>

text \<open>\<^verbatim>\<open>unicode.IsSpace\<close> on the Latin-1 range: tab, newline, vertical tab, form feed,
  carriage return, space, U+0085 and U+00A0.\<close>

definition isSpace :: "char \<Rightarrow> bool" where
  "isSpace c = ((of_char c :: nat) \<in> {9, 10, 11, 12, 13, 32, 133, 160})"

text \<open>\<^verbatim>\<open>strings.TrimSpace\<close>: leading and trailing white space removed.\<close>

definition TrimSpace :: "string \<Rightarrow> string" where
  "TrimSpace s = rev (dropWhile isSpace (rev (dropWhile isSpace s)))"

text \<open>\<^verbatim>\<open>strings.Split(s, sep)\<close> for a separator of one character: the pieces between
  the separators, one more than there are separators.\<close>

fun Split :: "string \<Rightarrow> char \<Rightarrow> string list" where
  "Split [] sep = [[]]"
| "Split (c # cs) sep =
     (if c = sep then [] # Split cs sep
      else (case Split cs sep of
              [] \<Rightarrow> [[c]]
            | p # ps \<Rightarrow> (c # p) # ps))"

text \<open>\<^verbatim>\<open>strings.Join(elems, sep)\<close>.\<close>

fun Join :: "string list \<Rightarrow> string \<Rightarrow> string" where
  "Join [] sep = []"
| "Join [x] sep = x"
| "Join (x # y # ys) sep = x @ sep @ Join (y # ys) sep"

text \<open>\<^verbatim>\<open>splitAndTrim\<close> (update.go): split at commas, trim every piece.\<close>

definition splitAndTrim :: "string \<Rightarrow> string list" where
  "splitAndTrim s = map TrimSpace (Split s (CHR '',''))"

subsection \<open>Integers and their decimal text\<close>

definition isDigit :: "char \<Rightarrow> bool" where
  "isDigit c = (48 \<le> (of_char c :: nat) \<and> (of_char c :: nat) \<le> 57)"

definition digitVal :: "char \<Rightarrow> int" where
  "digitVal c = int (of_char c) - 48"

definition digitChar :: "int \<Rightarrow> char" where
  "digitChar d = char_of (nat (48 + d))"

text \<open>\<^verbatim>\<open>fmt.Sprintf("%d", n)\<close>: the decimal digits of the magnitude, after a minus sign for a
  negative number.\<close>

function showNat :: "int \<Rightarrow> string" where
  "showNat n = (if n < 10 then [digitChar n] else showNat (n div 10) @ [digitChar (n mod 10)])"
  by pat_completeness auto
termination
  by (relation "measure nat") auto

declare showNat.simps [simp del]

definition showInt :: "int \<Rightarrow> string" where
  "showInt i = (if i < 0 then CHR ''-'' # showNat (- i) else showNat i)"

datatype numError = ErrSyntax | ErrRange

definition maxUint64 :: int where
  "maxUint64 = 18446744073709551615"

definition maxInt64 :: int where
  "maxInt64 = 9223372036854775807"

definition minInt64 :: int where
  "minInt64 = - 9223372036854775808"

text \<open>The digit loop of \<^verbatim>\<open>strconv.ParseUint(s, 10, 64)\<close>: a character that is not a digit
  is a syntax error; a value beyond 64 bits is a range error, reported with the largest
  value and as soon as it is seen.\<close>

fun parseUintLoop :: "int \<Rightarrow> string \<Rightarrow> int \<times> numError option" where
  "parseUintLoop n [] = (n, None)"
| "parseUintLoop n (c # cs) =
     (if \<not> isDigit c then (0, Some ErrSyntax)
      else if n \<ge> maxUint64 div 10 + 1 then (maxUint64, Some ErrRange)
      else if n * 10 + digitVal c > maxUint64 then (maxUint64, Some ErrRange)
      else parseUintLoop (n * 10 + digitVal c) cs)"

definition ParseUint :: "string \<Rightarrow> int \<times> numError option" where
  "ParseUint s = (if s = [] then (0, Some ErrSyntax) else parseUintLoop 0 s)"

text \<open>\<^verbatim>\<open>strconv.Atoi(s)\<close> on a 64-bit platform, that is \<^verbatim>\<open>ParseInt(s, 10, 0)\<close>: an optional
  sign, then \<^verbatim>\<open>ParseUint\<close>. A syntax error returns 0; a range error returns the nearest
  bound of the 64-bit range. Both return the error beside the value.\<close>

definition Atoi :: "string \<Rightarrow> int \<times> numError option" where
  "Atoi s =
     (if s = [] then (0, Some ErrSyntax)
      else
        let neg = (hd s = CHR ''-'');
            s' = (if hd s = CHR ''+'' \<or> hd s = CHR ''-'' then tl s else s);
            (un, err) = ParseUint s'
        in if err = Some ErrSyntax then (0, Some ErrSyntax)
           else if \<not> neg \<and> un \<ge> 9223372036854775808 then (maxInt64, Some ErrRange)
           else if neg \<and> un > 9223372036854775808 then (minInt64, Some ErrRange)
           else (if neg then - un else un, None))"

subsection \<open>Data model\<close>

datatype screen =
    screenChoice
  | screenPolicy
  | screenPolicyRules
  | screenPolicyAddRule
  | screenPolicyEditRule
  | screenTrust
  | screenTrustGlobalRules
  | screenTrustAddGlobalRule
  | screenTrustEditGlobalRule

record item =
  title :: string
  desc :: string

text \<open>Modelled from the spec: the types \<^verbatim>\<open>rule\<close> and \<^verbatim>\<open>globalRule\<close> are declared in a file of
  the package that is not at hand. Their fields are those of the data model of the
  specification, which are also the ones the source reads and writes; the rule type is a
  text, as the source assigns it the text of an input.\<close>

record rule =
  name :: string
  pattern :: string
  key :: string

record globalRule =
  ruleName :: string
  ruleType :: string
  rulePatterns :: "string list"
  threshold :: int

text \<open>Modelled from the spec: the constant \<^verbatim>\<open>tuf.GlobalRuleThresholdType\<close> is declared
  outside the files at hand; the specification gives the threshold type as the text
  \<^verbatim>\<open>threshold\<close>.\<close>

definition GlobalRuleThresholdType :: string where
  "GlobalRuleThresholdType = ''threshold''"

datatype style = noStyle | focusedStyle | blurredStyle | cursorStyle

text \<open>The library's \<^verbatim>\<open>textinput.Model\<close>, as far as the source sets and reads it.\<close>

record textinput =
  Placeholder :: string
  Prompt :: string
  CharLimit :: int
  PromptStyle :: style
  TextStyle :: style
  CursorStyle :: style
  focus :: bool
  input_value :: string

text \<open>The library's \<^verbatim>\<open>list.Model\<close>: its items, the index of the selected one, its title
  and its size.\<close>

record list_model =
  items :: "item list"
  index :: int
  Title :: string
  width :: int
  height :: int

record inputField =
  placeholder :: string
  prompt :: string

datatype msg = WindowSizeMsg int int | KeyMsg string | OtherMsg nat

datatype cmd = CmdNil | Quit | WidgetCmd nat

datatype panic = IndexOutOfRange

type_synonym err = "string option"

record model =
  screen :: screen
  choiceList :: list_model
  policyScreenList :: list_model
  trustScreenList :: list_model
  rules :: "rule list"
  ruleList :: list_model
  globalRules :: "globalRule list"
  globalRuleList :: list_model
  inputs :: "textinput list"
  focusIndex :: int
  policyName :: string
  footer :: string
  readOnly :: bool
  confirmDelete :: bool
  deleteTarget :: string

subsection \<open>The rule store and the widget library\<close>

text \<open>Every call that reaches the repository, in the order made.\<close>

datatype call =
    FetchRules
  | FetchGlobalRules
  | AddRule rule "string list"
  | UpdateRule rule "string list"
  | RemoveRule rule
  | ReorderRules "rule list"
  | AddGlobalRule globalRule
  | UpdateGlobalRule globalRule
  | RemoveGlobalRule globalRule

record 's world =
  store :: 's
  calls :: "call list"

text \<open>The functions of the package that reach the repository (\<^verbatim>\<open>getCurrRules\<close>,
  \<^verbatim>\<open>repoAddRule\<close>, ...) and the reaction of the widgets to a message (\<^verbatim>\<open>Update\<close> of a list
  and of a text input) are parameters: \<open>'s\<close> is the state of the repository, and a
  repository function returns its error and the new state.\<close>

record 's env =
  getCurrRules :: "'s \<Rightarrow> rule list"
  getGlobalRules :: "'s \<Rightarrow> globalRule list"
  repoAddRule :: "'s \<Rightarrow> rule \<Rightarrow> string list \<Rightarrow> err \<times> 's"
  repoUpdateRule :: "'s \<Rightarrow> rule \<Rightarrow> string list \<Rightarrow> err \<times> 's"
  repoRemoveRule :: "'s \<Rightarrow> rule \<Rightarrow> err \<times> 's"
  repoReorderRules :: "'s \<Rightarrow> rule list \<Rightarrow> err \<times> 's"
  repoAddGlobalRule :: "'s \<Rightarrow> globalRule \<Rightarrow> err \<times> 's"
  repoUpdateGlobalRule :: "'s \<Rightarrow> globalRule \<Rightarrow> err \<times> 's"
  repoRemoveGlobalRule :: "'s \<Rightarrow> globalRule \<Rightarrow> err \<times> 's"
  listUpdate :: "msg \<Rightarrow> list_model \<Rightarrow> list_model \<times> cmd"
  inputUpdate :: "msg \<Rightarrow> textinput \<Rightarrow> textinput \<times> cmd"

text \<open>A call is made on the current store and appended to the log.\<close>

definition invoke :: "call \<Rightarrow> ('s \<Rightarrow> err \<times> 's) \<Rightarrow> 's world \<Rightarrow> err \<times> 's world"
  where
  "invoke c f w = (case f (store w) of (e, s') \<Rightarrow> (e, \<lparr>store = s', calls = calls w @ [c]\<rparr>))"

definition fetched :: "call \<Rightarrow> 's world \<Rightarrow> 's world" where
  "fetched c w = w\<lparr>calls := calls w @ [c]\<rparr>"

subsection \<open>Widgets\<close>

text \<open>\<^verbatim>\<open>list.Model.SelectedItem()\<close>: the item at the index, or \<^verbatim>\<open>nil\<close>.\<close>

definition SelectedItem :: "list_model \<Rightarrow> item option" where
  "SelectedItem l =
     (if 0 \<le> index l \<and> index l < int (length (items l)) then Some (items l ! nat (index l))
      else None)"

definition SetItems :: "item list \<Rightarrow> list_model \<Rightarrow> list_model" where
  "SetItems xs l = l\<lparr>items := xs\<rparr>"

definition SetSize :: "int \<Rightarrow> int \<Rightarrow> list_model \<Rightarrow> list_model" where
  "SetSize w h l = l\<lparr>width := w, height := h\<rparr>"

definition Focus :: "textinput \<Rightarrow> textinput" where
  "Focus t = t\<lparr>focus := True\<rparr>"

definition Blur :: "textinput \<Rightarrow> textinput" where
  "Blur t = t\<lparr>focus := False\<rparr>"

definition Value :: "textinput \<Rightarrow> string" where
  "Value t = input_value t"

text \<open>\<^verbatim>\<open>textinput.Model.SetValue(s)\<close>, as the library has it: the text is cleaned first (a
  newline, a carriage return and a tab each become a space, every other control character
  is dropped), and it is cut at \<^verbatim>\<open>CharLimit\<close> characters when the limit is positive.\<close>

definition isControl :: "char \<Rightarrow> bool" where
  "isControl c =
     ((of_char c :: nat) < 32 \<or> (127 \<le> (of_char c :: nat) \<and> (of_char c :: nat) \<le> 159))"

fun sanitize :: "string \<Rightarrow> string" where
  "sanitize [] = []"
| "sanitize (c # cs) =
     (if c = CHR 0x0D \<or> c = CHR 0x0A then CHR '' '' # sanitize cs
      else if c = CHR 0x09 then CHR '' '' # sanitize cs
      else if isControl c then sanitize cs
      else c # sanitize cs)"

definition SetValue :: "string \<Rightarrow> textinput \<Rightarrow> textinput" where
  "SetValue s t =
     (let rs = sanitize s
      in t\<lparr>input_value := (if 0 < CharLimit t \<and> CharLimit t < int (length rs)
                              then take (nat (CharLimit t)) rs else rs)\<rparr>)"


text \<open>\<^verbatim>\<open>textinput.New()\<close> with the fields \<^verbatim>\<open>initInputs\<close> sets.\<close>

definition newInput :: "inputField \<Rightarrow> textinput" where
  "newInput f =
     \<lparr>Placeholder = placeholder f, Prompt = prompt f, CharLimit = 64,
      PromptStyle = noStyle, TextStyle = noStyle, CursorStyle = cursorStyle,
      focus = False, input_value = []\<rparr>"

definition styled :: "bool \<Rightarrow> textinput \<Rightarrow> textinput" where
  "styled foc t =
     (if foc then (Focus t)\<lparr>PromptStyle := focusedStyle, TextStyle := focusedStyle\<rparr>
      else (Blur t)\<lparr>PromptStyle := blurredStyle, TextStyle := blurredStyle\<rparr>)"

text \<open>\<^verbatim>\<open>initInputs\<close>: the first field is focused, the rest are blurred.\<close>

definition initInputs :: "inputField list \<Rightarrow> textinput list" where
  "initInputs fs =
     map (\<lambda>(i, f). styled (i = 0) (newInput f)) (zip [0 ..< length fs] fs)"

definition newMenuList :: "string \<Rightarrow> item list \<Rightarrow> list_model" where
  "newMenuList t xs = \<lparr>items = xs, index = 0, Title = t, width = 0, height = 0\<rparr>"

definition ruleFields :: "inputField list" where
  "ruleFields =
     [\<lparr>placeholder = ''Enter Rule Name Here'', prompt = ''Rule Name:''\<rparr>,
      \<lparr>placeholder = ''Enter Pattern Here'', prompt = ''Pattern:''\<rparr>,
      \<lparr>placeholder = ''Enter Principal IDs Here (comma-separated)'',
       prompt = ''Authorize Principal:''\<rparr>]"

definition globalRuleFields :: "inputField list" where
  "globalRuleFields =
     [\<lparr>placeholder = ''Enter Global Rule Name Here'', prompt = ''Rule Name:''\<rparr>,
      \<lparr>placeholder = ''Enter Rule Type (threshold|block-force-pushes)'', prompt = ''Type:''\<rparr>,
      \<lparr>placeholder = ''Enter Namespaces (comma-separated)'', prompt = ''Namespaces:''\<rparr>,
      \<lparr>placeholder = ''Enter Threshold (if threshold type)'', prompt = ''Threshold:''\<rparr>]"

subsection \<open>Forms and derived list views (model file)\<close>

definition initRuleInputs :: "model \<Rightarrow> model" where
  "initRuleInputs m = m\<lparr>inputs := initInputs ruleFields, focusIndex := 0\<rparr>"

definition initGlobalRuleInputs :: "model \<Rightarrow> model" where
  "initGlobalRuleInputs m = m\<lparr>inputs := initInputs globalRuleFields, focusIndex := 0\<rparr>"

text \<open>\<^verbatim>\<open>m.inputs[i].SetValue(s)\<close>, for an index within the freshly built inputs.\<close>

definition setInput :: "nat \<Rightarrow> string \<Rightarrow> model \<Rightarrow> model" where
  "setInput i s m = m\<lparr>inputs := (inputs m)[i := SetValue s (inputs m ! i)]\<rparr>"

definition initRuleInputsPrefilled :: "rule \<Rightarrow> model \<Rightarrow> model" where
  "initRuleInputsPrefilled r m =
     setInput 2 (key r) (setInput 1 (pattern r) (setInput 0 (name r) (initRuleInputs m)))"

definition initGlobalRuleInputsPrefilled :: "globalRule \<Rightarrow> model \<Rightarrow> model" where
  "initGlobalRuleInputsPrefilled gr m =
     (let m3 = setInput 2 (Join (rulePatterns gr) '', '')
                 (setInput 1 (ruleType gr) (setInput 0 (ruleName gr)
                   (initGlobalRuleInputs m)))
      in if ruleType gr = GlobalRuleThresholdType
         then setInput 3 (showInt (threshold gr)) m3
         else m3)"

definition ruleItem :: "rule \<Rightarrow> item" where
  "ruleItem r = \<lparr>title = name r, desc = ''Pattern: '' @ pattern r @ '', Key: '' @ key r\<rparr>"

definition updateRuleList :: "model \<Rightarrow> model" where
  "updateRuleList m = m\<lparr>ruleList := SetItems (map ruleItem (rules m)) (ruleList m)\<rparr>"

definition globalRuleItem :: "globalRule \<Rightarrow> item" where
  "globalRuleItem gr =
     \<lparr>title = ruleName gr,
      desc = ''Type: '' @ ruleType gr @ [CHR 0x0A] @ ''Namespaces: ''
               @ Join (rulePatterns gr) '', ''
               @ (if ruleType gr = GlobalRuleThresholdType
                  then [CHR 0x0A] @ ''Threshold: '' @ showInt (threshold gr) else [])\<rparr>"

definition updateGlobalRuleList :: "model \<Rightarrow> model" where
  "updateGlobalRuleList m =
     m\<lparr>globalRuleList := SetItems (map globalRuleItem (globalRules m)) (globalRuleList m)\<rparr>"

definition refreshRules :: "'s env \<Rightarrow> model \<Rightarrow> 's world \<Rightarrow> model \<times> 's world" where
  "refreshRules env m w =
     (updateRuleList (m\<lparr>rules := getCurrRules env (store w)\<rparr>), fetched FetchRules w)"

definition refreshGlobalRules :: "'s env \<Rightarrow> model \<Rightarrow> 's world \<Rightarrow> model \<times> 's world" where
  "refreshGlobalRules env m w =
     (updateGlobalRuleList (m\<lparr>globalRules := getGlobalRules env (store w)\<rparr>),
      fetched FetchGlobalRules w)"

subsection \<open>The update function (update.go)\<close>

type_synonym 's result = "panic + (model \<times> cmd \<times> 's world)"

definition isFormScreen :: "screen \<Rightarrow> bool" where
  "isFormScreen sc =
     (sc = screenPolicyAddRule \<or> sc = screenPolicyEditRule \<or>
      sc = screenTrustAddGlobalRule \<or> sc = screenTrustEditGlobalRule)"

text \<open>\<^verbatim>\<open>cycleFocus\<close>: the keys \<^verbatim>\<open>up\<close> and \<^verbatim>\<open>shift+tab\<close> move back, every other key moves
  forward; then every field is focused or blurred anew.\<close>

definition cycleFocus :: "string \<Rightarrow> model \<Rightarrow> model" where
  "cycleFocus k m =
     (let m1 =
        (if k = ''up'' \<or> k = ''shift+tab'' then
           (if focusIndex m > 0 then m\<lparr>focusIndex := focusIndex m - 1, footer := []\<rparr>
            else m\<lparr>focusIndex := int (length (inputs m)) - 1\<rparr>)
         else
           (if focusIndex m < int (length (inputs m)) - 1
            then m\<lparr>focusIndex := focusIndex m + 1\<rparr>
            else m\<lparr>focusIndex := 0\<rparr>))
      in m1\<lparr>inputs := map (\<lambda>(i, t). styled (int i = focusIndex m1) t)
                          (zip [0 ..< length (inputs m1)] (inputs m1))\<rparr>)"

definition handleEnter :: "'s env \<Rightarrow> model \<Rightarrow> 's world \<Rightarrow> 's result" where
  "handleEnter env m w =
     (case screen m of
        screenChoice \<Rightarrow>
          (case SelectedItem (choiceList m) of
             Some i \<Rightarrow>
               (if title i = ''Policy'' then Inr (m\<lparr>screen := screenPolicy\<rparr>, CmdNil, w)
                else if title i = ''Trust'' then Inr (m\<lparr>screen := screenTrust\<rparr>, CmdNil, w)
                else Inr (m, CmdNil, w))
           | None \<Rightarrow> Inr (m, CmdNil, w))
      | screenPolicy \<Rightarrow>
          (case SelectedItem (policyScreenList m) of
             Some i \<Rightarrow>
               (case refreshRules env (m\<lparr>screen := screenPolicyRules\<rparr>) w of
                  (m1, w1) \<Rightarrow> Inr (m1, CmdNil, w1))
           | None \<Rightarrow> Inr (m, CmdNil, w))
      | screenTrust \<Rightarrow>
          (case SelectedItem (trustScreenList m) of
             Some i \<Rightarrow>
               (case refreshGlobalRules env (m\<lparr>screen := screenTrustGlobalRules\<rparr>) w of
                  (m1, w1) \<Rightarrow> Inr (m1, CmdNil, w1))
           | None \<Rightarrow> Inr (m, CmdNil, w))
      | _ \<Rightarrow> Inr (m, CmdNil, w))"

text \<open>\<^verbatim>\<open>handleReorderUp\<close>: \<^verbatim>\<open>m.rules[i]\<close> panics when the index of the list view lies beyond
  the rules. The swap is made on \<^verbatim>\<open>m.rules\<close> before the repository is called, and the model
  returned on an error is the one holding the swapped rules.\<close>

definition handleReorderUp :: "'s env \<Rightarrow> model \<Rightarrow> 's world \<Rightarrow> 's result" where
  "handleReorderUp env m w =
     (let i = index (ruleList m) in
      if i > 0 then
        (if i \<ge> int (length (rules m)) then Inl IndexOutOfRange
         else
           let rs = (rules m)[nat i := rules m ! nat (i - 1), nat (i - 1) := rules m ! nat i];
               m1 = m\<lparr>rules := rs\<rparr>
           in case invoke (ReorderRules rs) (\<lambda>s. repoReorderRules env s rs) w of
                (Some e, w1) \<Rightarrow>
                  Inr (m1\<lparr>footer := ''Error reordering rules: '' @ e\<rparr>, CmdNil, w1)
              | (None, w1) \<Rightarrow>
                  Inr ((updateRuleList m1)\<lparr>footer := ''Rules reordered successfully!''\<rparr>,
                       CmdNil, w1))
      else Inr (m, CmdNil, w))"

definition handleReorderDown :: "'s env \<Rightarrow> model \<Rightarrow> 's world \<Rightarrow> 's result" where
  "handleReorderDown env m w =
     (let i = index (ruleList m) in
      if i < int (length (rules m)) - 1 then
        (if i < 0 then Inl IndexOutOfRange
         else
           let rs = (rules m)[nat i := rules m ! nat (i + 1), nat (i + 1) := rules m ! nat i];
               m1 = m\<lparr>rules := rs\<rparr>
           in case invoke (ReorderRules rs) (\<lambda>s. repoReorderRules env s rs) w of
                (Some e, w1) \<Rightarrow>
                  Inr (m1\<lparr>footer := ''Error reordering rules: '' @ e\<rparr>, CmdNil, w1)
              | (None, w1) \<Rightarrow>
                  Inr ((updateRuleList m1)\<lparr>footer := ''Rules reordered successfully!''\<rparr>,
                       CmdNil, w1))
      else Inr (m, CmdNil, w))"

text \<open>The tail of \<^verbatim>\<open>handleRulesListKey\<close>: keys not handled go to the active list.\<close>

definition delegateList :: "'s env \<Rightarrow> msg \<Rightarrow> model \<Rightarrow> 's world \<Rightarrow> 's result" where
  "delegateList env ms m w =
     (if screen m = screenPolicyRules
      then (case listUpdate env ms (ruleList m) of
              (l, c) \<Rightarrow> Inr (m\<lparr>ruleList := l\<rparr>, c, w))
      else (case listUpdate env ms (globalRuleList m) of
              (l, c) \<Rightarrow> Inr (m\<lparr>globalRuleList := l\<rparr>, c, w)))"

definition handleRulesListKey :: "'s env \<Rightarrow> string \<Rightarrow> model \<Rightarrow> 's world \<Rightarrow> 's result" where
  "handleRulesListKey env k m w =
     (if \<not> readOnly m \<and> k = ''a'' then
        (if screen m = screenPolicyRules
         then Inr ((initRuleInputs m)\<lparr>screen := screenPolicyAddRule\<rparr>, CmdNil, w)
         else Inr ((initGlobalRuleInputs m)\<lparr>screen := screenTrustAddGlobalRule\<rparr>, CmdNil, w))
      else if \<not> readOnly m \<and> k = ''e'' then
        (if screen m = screenPolicyRules then
           (case SelectedItem (ruleList m) of
              Some sel \<Rightarrow>
                (case find (\<lambda>r. name r = title sel) (rules m) of
                   Some r \<Rightarrow>
                     Inr ((initRuleInputsPrefilled r m)\<lparr>screen := screenPolicyEditRule\<rparr>,
                          CmdNil, w)
                 | None \<Rightarrow> delegateList env (KeyMsg k) m w)
            | None \<Rightarrow> delegateList env (KeyMsg k) m w)
         else
           (case SelectedItem (globalRuleList m) of
              Some sel \<Rightarrow>
                (case find (\<lambda>gr. ruleName gr = title sel) (globalRules m) of
                   Some gr \<Rightarrow>
                     Inr ((initGlobalRuleInputsPrefilled gr m)
                            \<lparr>screen := screenTrustEditGlobalRule\<rparr>, CmdNil, w)
                 | None \<Rightarrow> delegateList env (KeyMsg k) m w)
            | None \<Rightarrow> delegateList env (KeyMsg k) m w))
      else if \<not> readOnly m \<and> k = ''d'' then
        (case (if screen m = screenPolicyRules then SelectedItem (ruleList m)
               else SelectedItem (globalRuleList m)) of
           Some sel \<Rightarrow> Inr (m\<lparr>confirmDelete := True, deleteTarget := title sel\<rparr>, CmdNil, w)
         | None \<Rightarrow> delegateList env (KeyMsg k) m w)
      else if \<not> readOnly m \<and> (k = ''u'' \<or> k = ''k'') \<and> screen m = screenPolicyRules then
        handleReorderUp env m w
      else if \<not> readOnly m \<and> k = ''j'' \<and> screen m = screenPolicyRules then
        handleReorderDown env m w
      else delegateList env (KeyMsg k) m w)"

text \<open>\<^verbatim>\<open>handleDeleteConfirm\<close>: only the key \<^verbatim>\<open>y\<close> removes; the overlay is left in every
  case.\<close>

definition handleDeleteConfirm :: "'s env \<Rightarrow> string \<Rightarrow> model \<Rightarrow> 's world \<Rightarrow> 's result" where
  "handleDeleteConfirm env k m w =
     (case
        (if k = ''y'' then
           (case screen m of
              screenPolicyRules \<Rightarrow>
                (let r = \<lparr>name = deleteTarget m, pattern = [], key = []\<rparr> in
                 case invoke (RemoveRule r) (\<lambda>s. repoRemoveRule env s r) w of
                   (Some e, w1) \<Rightarrow> (m\<lparr>footer := ''Error removing rule: '' @ e\<rparr>, w1)
                 | (None, w1) \<Rightarrow>
                     refreshRules env (m\<lparr>footer := ''Rule removed successfully!''\<rparr>) w1)
            | screenTrustGlobalRules \<Rightarrow>
                (let gr = \<lparr>ruleName = deleteTarget m, ruleType = [], rulePatterns = [],
                           threshold = 0\<rparr> in
                 case invoke (RemoveGlobalRule gr) (\<lambda>s. repoRemoveGlobalRule env s gr) w of
                   (Some e, w1) \<Rightarrow> (m\<lparr>footer := ''Error removing global rule: '' @ e\<rparr>, w1)
                 | (None, w1) \<Rightarrow>
                     refreshGlobalRules env (m\<lparr>footer := ''Global rule removed!''\<rparr>) w1)
            | _ \<Rightarrow> (m, w))
         else (m, w))
      of (m1, w1) \<Rightarrow> Inr (m1\<lparr>confirmDelete := False, deleteTarget := []\<rparr>, CmdNil, w1))"

text \<open>\<^verbatim>\<open>handlePolicyFormSubmit\<close>: before the last field, Enter moves the focus forward; from
  there it builds the rule from the three inputs (a panic when there are fewer) and calls
  the repository.\<close>

definition handlePolicyFormSubmit :: "'s env \<Rightarrow> model \<Rightarrow> 's world \<Rightarrow> 's result" where
  "handlePolicyFormSubmit env m w =
     (if focusIndex m < int (length (inputs m)) - 1 then Inr (cycleFocus ''tab'' m, CmdNil, w)
      else if length (inputs m) < 3 then Inl IndexOutOfRange
      else
        let r = \<lparr>name = Value (inputs m ! 0), pattern = Value (inputs m ! 1),
                 key = Value (inputs m ! 2)\<rparr>;
            authorizedKeys = splitAndTrim (Value (inputs m ! 2))
        in case
             (case screen m of
                screenPolicyAddRule \<Rightarrow>
                  invoke (AddRule r authorizedKeys) (\<lambda>s. repoAddRule env s r authorizedKeys) w
              | screenPolicyEditRule \<Rightarrow>
                  invoke (UpdateRule r authorizedKeys)
                    (\<lambda>s. repoUpdateRule env s r authorizedKeys) w
              | _ \<Rightarrow> (None, w))
           of
             (Some e, w1) \<Rightarrow> Inr (m\<lparr>footer := ''Error: '' @ e\<rparr>, CmdNil, w1)
           | (None, w1) \<Rightarrow>
               (case refreshRules env m w1 of
                  (m1, w2) \<Rightarrow>
                    Inr (m1\<lparr>footer := (if screen m1 = screenPolicyAddRule
                                        then ''Rule added successfully!''
                                        else ''Rule updated successfully!''),
                            screen := screenPolicyRules\<rparr>, CmdNil, w2)))"

text \<open>\<^verbatim>\<open>handleGlobalFormSubmit\<close>: the threshold input is read, and parsed with its error
  dropped, only when the type input holds the threshold type.\<close>

definition handleGlobalFormSubmit :: "'s env \<Rightarrow> model \<Rightarrow> 's world \<Rightarrow> 's result" where
  "handleGlobalFormSubmit env m w =
     (if focusIndex m < int (length (inputs m)) - 1 then Inr (cycleFocus ''tab'' m, CmdNil, w)
      else if length (inputs m) < 3 then Inl IndexOutOfRange
      else if Value (inputs m ! 1) = GlobalRuleThresholdType \<and> length (inputs m) < 4
        then Inl IndexOutOfRange
      else
        let parts = splitAndTrim (Value (inputs m ! 2));
            thr = (if Value (inputs m ! 1) = GlobalRuleThresholdType
                   then fst (Atoi (Value (inputs m ! 3))) else 0);
            gr = \<lparr>ruleName = Value (inputs m ! 0), ruleType = Value (inputs m ! 1),
                  rulePatterns = parts, threshold = thr\<rparr>
        in case
             (case screen m of
                screenTrustAddGlobalRule \<Rightarrow>
                  invoke (AddGlobalRule gr) (\<lambda>s. repoAddGlobalRule env s gr) w
              | screenTrustEditGlobalRule \<Rightarrow>
                  invoke (UpdateGlobalRule gr) (\<lambda>s. repoUpdateGlobalRule env s gr) w
              | _ \<Rightarrow> (None, w))
           of
             (Some e, w1) \<Rightarrow> Inr (m\<lparr>footer := ''Error: '' @ e\<rparr>, CmdNil, w1)
           | (None, w1) \<Rightarrow>
               (case refreshGlobalRules env m w1 of
                  (m1, w2) \<Rightarrow>
                    Inr (m1\<lparr>footer := (if screen m1 = screenTrustAddGlobalRule
                                        then ''Global rule added!''
                                        else ''Global rule updated!''),
                            screen := screenTrustGlobalRules\<rparr>, CmdNil, w2)))"

text \<open>The last switch of \<^verbatim>\<open>Update\<close>: the message goes to the widget of the screen; on a
  form that is \<^verbatim>\<open>m.inputs[m.focusIndex]\<close>.\<close>

definition delegate :: "'s env \<Rightarrow> msg \<Rightarrow> model \<Rightarrow> 's world \<Rightarrow> 's result" where
  "delegate env ms m w =
     (case screen m of
        screenChoice \<Rightarrow>
          (case listUpdate env ms (choiceList m) of
             (l, c) \<Rightarrow> Inr (m\<lparr>choiceList := l\<rparr>, c, w))
      | screenPolicy \<Rightarrow>
          (case listUpdate env ms (policyScreenList m) of
             (l, c) \<Rightarrow> Inr (m\<lparr>policyScreenList := l\<rparr>, c, w))
      | screenTrust \<Rightarrow>
          (case listUpdate env ms (trustScreenList m) of
             (l, c) \<Rightarrow> Inr (m\<lparr>trustScreenList := l\<rparr>, c, w))
      | screenPolicyRules \<Rightarrow>
          (case listUpdate env ms (ruleList m) of
             (l, c) \<Rightarrow> Inr (m\<lparr>ruleList := l\<rparr>, c, w))
      | screenTrustGlobalRules \<Rightarrow>
          (case listUpdate env ms (globalRuleList m) of
             (l, c) \<Rightarrow> Inr (m\<lparr>globalRuleList := l\<rparr>, c, w))
      | _ \<Rightarrow>
          (if 0 \<le> focusIndex m \<and> focusIndex m < int (length (inputs m)) then
             (case inputUpdate env ms (inputs m ! nat (focusIndex m)) of
                (t, c) \<Rightarrow> Inr (m\<lparr>inputs := (inputs m)[nat (focusIndex m) := t]\<rparr>, c, w))
           else Inl IndexOutOfRange))"

text \<open>The frame of \<^verbatim>\<open>lipgloss.NewStyle().Margin(1, 2)\<close> is 4 columns and 2 rows.\<close>

definition resize :: "int \<Rightarrow> int \<Rightarrow> model \<Rightarrow> model" where
  "resize wd ht m =
     m\<lparr>choiceList := SetSize (wd - 4) (ht - 2) (choiceList m),
       policyScreenList := SetSize (wd - 4) (ht - 2) (policyScreenList m),
       trustScreenList := SetSize (wd - 4) (ht - 2) (trustScreenList m),
       ruleList := SetSize (wd - 4) (ht - 2) (ruleList m),
       globalRuleList := SetSize (wd - 4) (ht - 2) (globalRuleList m)\<rparr>"

text \<open>The \<^verbatim>\<open>esc\<close> case: the footer is cleared and the screen goes one level up.\<close>

definition escape :: "model \<Rightarrow> model" where
  "escape m =
     m\<lparr>footer := [],
       screen := (case screen m of
                    screenChoice \<Rightarrow> screenChoice
                  | screenPolicy \<Rightarrow> screenChoice
                  | screenTrust \<Rightarrow> screenChoice
                  | screenPolicyRules \<Rightarrow> screenPolicy
                  | screenPolicyAddRule \<Rightarrow> screenPolicyRules
                  | screenPolicyEditRule \<Rightarrow> screenPolicyRules
                  | screenTrustGlobalRules \<Rightarrow> screenTrust
                  | screenTrustAddGlobalRule \<Rightarrow> screenTrustGlobalRules
                  | screenTrustEditGlobalRule \<Rightarrow> screenTrustGlobalRules)\<rparr>"

definition isCycleKey :: "string \<Rightarrow> bool" where
  "isCycleKey k = (k = ''tab'' \<or> k = ''shift+tab'' \<or> k = ''up'' \<or> k = ''down'')"

text \<open>The screen-specific switch of \<^verbatim>\<open>Update\<close> for a key.\<close>

definition screenKey :: "'s env \<Rightarrow> string \<Rightarrow> model \<Rightarrow> 's world \<Rightarrow> 's result" where
  "screenKey env k m w =
     (if screen m = screenChoice \<or> screen m = screenPolicy \<or> screen m = screenTrust then
        (if k = ''enter'' then handleEnter env m w else delegate env (KeyMsg k) m w)
      else if screen m = screenPolicyRules \<or> screen m = screenTrustGlobalRules then
        handleRulesListKey env k m w
      else if screen m = screenPolicyAddRule \<or> screen m = screenPolicyEditRule then
        (if k = ''enter'' then handlePolicyFormSubmit env m w
         else if isCycleKey k then Inr (cycleFocus k m, CmdNil, w)
         else delegate env (KeyMsg k) m w)
      else
        (if k = ''enter'' then handleGlobalFormSubmit env m w
         else if isCycleKey k then Inr (cycleFocus k m, CmdNil, w)
         else delegate env (KeyMsg k) m w))"

definition Update :: "'s env \<Rightarrow> msg \<Rightarrow> model \<Rightarrow> 's world \<Rightarrow> 's result" where
  "Update env ms m w =
     (case ms of
        WindowSizeMsg wd ht \<Rightarrow> delegate env ms (resize wd ht m) w
      | KeyMsg k \<Rightarrow>
          (if confirmDelete m then handleDeleteConfirm env k m w
           else if k = ''ctrl+c'' then Inr (m, Quit, w)
           else if k = ''q'' \<and> \<not> isFormScreen (screen m) then Inr (m, Quit, w)
           else if k = ''esc'' then Inr (escape m, CmdNil, w)
           else screenKey env k m w)
      | OtherMsg n \<Rightarrow> delegate env ms m w)"

text \<open>The event loop: messages are delivered one at a time, until the quit command or a
  panic.\<close>

fun run :: "'s env \<Rightarrow> msg list \<Rightarrow> model \<Rightarrow> 's world \<Rightarrow> 's result" where
  "run env [] m w = Inr (m, CmdNil, w)"
| "run env (x # xs) m w =
     (case Update env x m w of
        Inl p \<Rightarrow> Inl p
      | Inr (m1, c, w1) \<Rightarrow> (if c = Quit then Inr (m1, Quit, w1) else run env xs m1 w1))"

subsection \<open>Start-up (model file)\<close>

datatype signerResult = SignerLoaded | SigningKeyNotSpecified | SignerFailed string

text \<open>\<^verbatim>\<open>initialModel\<close>: the arguments are the outcome of loading the repository, the
  read-only option, the outcome of loading the signer and the policy name.\<close>

definition initialModel ::
  "'s env \<Rightarrow> err \<Rightarrow> bool \<Rightarrow> signerResult \<Rightarrow> string \<Rightarrow> 's world \<Rightarrow> string + (model \<times> 's world)"
  where
  "initialModel env repoErr optReadOnly signer optPolicyName w =
     (case repoErr of
        Some e \<Rightarrow> Inl e
      | None \<Rightarrow>
          (case (if optReadOnly then Inr (True, [])
                 else (case signer of
                         SignerLoaded \<Rightarrow> Inr (False, [])
                       | SigningKeyNotSpecified \<Rightarrow>
                           Inr (True,
                             ''No signing key found in Git config, running in read-only mode.'')
                       | SignerFailed e \<Rightarrow>
                           Inl (''failed to load signing key from Git config: '' @ e)))
           of
             Inl e \<Rightarrow> Inl e
           | Inr (ro, ft) \<Rightarrow>
               Inr (\<lparr>screen = screenChoice,
                     choiceList = newMenuList ''gittuf TUI''
                       [\<lparr>title = ''Policy'', desc = ''View and manage gittuf Policy''\<rparr>,
                        \<lparr>title = ''Trust'', desc = ''View and manage gittuf Root of Trust''\<rparr>],
                     policyScreenList = newMenuList ''gittuf Policy Operations''
                       [\<lparr>title = ''View Rules'', desc = ''View and manage policy rules''\<rparr>],
                     trustScreenList = newMenuList ''gittuf Trust Operations''
                       [\<lparr>title = ''View Global Rules'',
                         desc = ''View and manage global rules''\<rparr>],
                     rules = getCurrRules env (store w),
                     ruleList = newMenuList ''Policy Rules'' [],
                     globalRules = getGlobalRules env (store w),
                     globalRuleList = newMenuList ''Global Rules'' [],
                     inputs = initInputs ruleFields,
                     focusIndex = 0,
                     policyName = optPolicyName,
                     footer = ft,
                     readOnly = ro,
                     confirmDelete = False,
                     deleteTarget = []\<rparr>,
                    fetched FetchGlobalRules (fetched FetchRules w))))"

subsection \<open>A repository in memory, for concrete runs\<close>

text \<open>The store holds the two collections. Every mutating call fails with the given error
  and leaves the store alone, or succeeds and applies the change. A list moves its index
  on \<^verbatim>\<open>up\<close>, \<^verbatim>\<open>k\<close>, \<^verbatim>\<open>down\<close> and \<^verbatim>\<open>j\<close>; a text input appends a typed character while its
  limit allows.\<close>

type_synonym memStore = "rule list \<times> globalRule list"

definition attempt :: "err \<Rightarrow> 's \<Rightarrow> 's \<Rightarrow> err \<times> 's" where
  "attempt fail s s' = (case fail of None \<Rightarrow> (None, s') | Some e \<Rightarrow> (Some e, s))"

definition typeKey :: "msg \<Rightarrow> textinput \<Rightarrow> textinput \<times> cmd" where
  "typeKey ms t =
     (case ms of
        KeyMsg [c] \<Rightarrow>
          (if 0 < CharLimit t \<and> CharLimit t \<le> int (length (input_value t)) then (t, CmdNil)
           else (t\<lparr>input_value := input_value t @ [c]\<rparr>, CmdNil))
      | _ \<Rightarrow> (t, CmdNil))"

definition listKey :: "msg \<Rightarrow> list_model \<Rightarrow> list_model \<times> cmd" where
  "listKey ms l =
     (case ms of
        KeyMsg k \<Rightarrow>
          (if (k = ''down'' \<or> k = ''j'') \<and> index l + 1 < int (length (items l))
             then (l\<lparr>index := index l + 1\<rparr>, CmdNil)
           else if (k = ''up'' \<or> k = ''k'') \<and> index l > 0
             then (l\<lparr>index := index l - 1\<rparr>, CmdNil)
           else (l, CmdNil))
      | _ \<Rightarrow> (l, CmdNil))"

definition memEnv :: "err \<Rightarrow> memStore env" where
  "memEnv fail =
     \<lparr>getCurrRules = fst,
      getGlobalRules = snd,
      repoAddRule = (\<lambda>s r ks. attempt fail s (fst s @ [r], snd s)),
      repoUpdateRule =
        (\<lambda>s r ks. attempt fail s (map (\<lambda>x. if name x = name r then r else x) (fst s), snd s)),
      repoRemoveRule = (\<lambda>s r. attempt fail s (filter (\<lambda>x. name x \<noteq> name r) (fst s), snd s)),
      repoReorderRules = (\<lambda>s rs. attempt fail s (rs, snd s)),
      repoAddGlobalRule = (\<lambda>s gr. attempt fail s (fst s, snd s @ [gr])),
      repoUpdateGlobalRule =
        (\<lambda>s gr. attempt fail s
           (fst s, map (\<lambda>x. if ruleName x = ruleName gr then gr else x) (snd s))),
      repoRemoveGlobalRule =
        (\<lambda>s gr. attempt fail s (fst s, filter (\<lambda>x. ruleName x \<noteq> ruleName gr) (snd s))),
      listUpdate = listKey,
      inputUpdate = typeKey\<rparr>"

definition ruleR1 :: rule where
  "ruleR1 = \<lparr>name = ''R1'', pattern = ''refs/heads/main'', key = ''alice''\<rparr>"

definition ruleR2 :: rule where
  "ruleR2 = \<lparr>name = ''R2'', pattern = ''refs/tags/*'', key = ''bob, carol''\<rparr>"

definition memWorld :: "rule list \<Rightarrow> globalRule list \<Rightarrow> memStore world" where
  "memWorld rs grs = \<lparr>store = (rs, grs), calls = []\<rparr>"

definition ruleR3 :: rule where
  "ruleR3 = \<lparr>name = ''R3'', pattern = ''refs/heads/release'', key = ''dave''\<rparr>"


definition globalG1 :: globalRule where
  "globalG1 =
     \<lparr>ruleName = ''G1'', ruleType = ''threshold'',
      rulePatterns = [''refs/heads/main'', ''refs/heads/dev''], threshold = 2\<rparr>"


text \<open>Start-up with a signer, then the given keys.\<close>

datatype sessionError = StartupError string | Panic panic

definition session ::
  "err \<Rightarrow> rule list \<Rightarrow> globalRule list \<Rightarrow> string list
     \<Rightarrow> sessionError + (model \<times> cmd \<times> memStore world)" where
  "session fail rs grs ks =
     (case initialModel (memEnv fail) None False SignerLoaded [] (memWorld rs grs) of
        Inl e \<Rightarrow> Inl (StartupError e)
      | Inr (m, w) \<Rightarrow>
          (case run (memEnv fail) (map KeyMsg ks) m w of
             Inl p \<Rightarrow> Inl (Panic p)
           | Inr r \<Rightarrow> Inr r))"

text \<open>A console on the rules screen with three rules, the second one selected, and one
  global rule.\<close>

definition demoModel :: model where
  "demoModel =
     \<lparr>screen = screenPolicyRules,
      choiceList = newMenuList ''gittuf TUI''
        [\<lparr>title = ''Policy'', desc = ''View and manage gittuf Policy''\<rparr>,
         \<lparr>title = ''Trust'', desc = ''View and manage gittuf Root of Trust''\<rparr>],
      policyScreenList = newMenuList ''gittuf Policy Operations''
        [\<lparr>title = ''View Rules'', desc = ''View and manage policy rules''\<rparr>],
      trustScreenList = newMenuList ''gittuf Trust Operations''
        [\<lparr>title = ''View Global Rules'', desc = ''View and manage global rules''\<rparr>],
      rules = [ruleR1, ruleR2, ruleR3],
      ruleList = (newMenuList ''Policy Rules'' (map ruleItem [ruleR1, ruleR2, ruleR3]))
                   \<lparr>index := 1\<rparr>,
      globalRules = [globalG1],
      globalRuleList = newMenuList ''Global Rules'' (map globalRuleItem [globalG1]),
      inputs = initInputs ruleFields,
      focusIndex = 0,
      policyName = [],
      footer = ''Rule added successfully!'',
      readOnly = False,
      confirmDelete = False,
      deleteTarget = []\<rparr>"

definition demoWorld :: "memStore world" where
  "demoWorld = memWorld [ruleR1, ruleR2, ruleR3] [globalG1]"


subsection \<open>An invariant of the console\<close>

text \<open>The overlay is open on a list screen only, and the focus index is an index of the
  inputs. Start-up establishes this and every update keeps it.\<close>

definition wellFormed :: "model \<Rightarrow> bool" where
  "wellFormed m =
     ((confirmDelete m \<longrightarrow> screen m = screenPolicyRules \<or> screen m = screenTrustGlobalRules)
      \<and> 0 \<le> focusIndex m \<and> focusIndex m < int (length (inputs m)))"

subsection \<open>Observations on a step\<close>

text \<open>The calls made to the repository between two worlds.\<close>

definition newCalls :: "'s world \<Rightarrow> 's world \<Rightarrow> call list" where
  "newCalls w w' = drop (length (calls w)) (calls w')"

definition isRemove :: "call \<Rightarrow> bool" where
  "isRemove c = (case c of RemoveRule r \<Rightarrow> True | RemoveGlobalRule gr \<Rightarrow> True | _ \<Rightarrow> False)"

definition resModel :: "'e + (model \<times> cmd \<times> 's world) \<Rightarrow> model option" where
  "resModel r = (case r of Inl p \<Rightarrow> None | Inr (m, c, w) \<Rightarrow> Some m)"

definition resCmd :: "'e + (model \<times> cmd \<times> 's world) \<Rightarrow> cmd option" where
  "resCmd r = (case r of Inl p \<Rightarrow> None | Inr (m, c, w) \<Rightarrow> Some c)"

definition resWorld :: "'e + (model \<times> cmd \<times> 's world) \<Rightarrow> 's world option" where
  "resWorld r = (case r of Inl p \<Rightarrow> None | Inr (m, c, w) \<Rightarrow> Some w)"

section \<open>Properties\<close>

subsection \<open>Auxiliary facts\<close>


lemma newCalls_self: "newCalls w w = []"
  by (simp add: newCalls_def)

lemma screen_kinds:
  "isFormScreen sc \<or> sc = screenChoice \<or> sc = screenPolicy \<or> sc = screenTrust
     \<or> sc = screenPolicyRules \<or> sc = screenTrustGlobalRules"
  by (cases sc) (simp_all add: isFormScreen_def)

lemma Update_key:
  "Update env (KeyMsg k) m w =
     (if confirmDelete m then handleDeleteConfirm env k m w
      else if k = ''ctrl+c'' then Inr (m, Quit, w)
      else if k = ''q'' \<and> \<not> isFormScreen (screen m) then Inr (m, Quit, w)
      else if k = ''esc'' then Inr (escape m, CmdNil, w)
      else screenKey env k m w)"
  by (simp add: Update_def)

lemma screenKey_list:
  "screen m = screenPolicyRules \<or> screen m = screenTrustGlobalRules \<Longrightarrow>
   screenKey env k m w = handleRulesListKey env k m w"
  by (auto simp add: screenKey_def)

lemma screenKey_form_enter:
  "isFormScreen (screen m) \<Longrightarrow>
   screenKey env ''enter'' m w =
     (if screen m = screenPolicyAddRule \<or> screen m = screenPolicyEditRule
      then handlePolicyFormSubmit env m w else handleGlobalFormSubmit env m w)"
  by (auto simp add: screenKey_def isFormScreen_def)

lemma Update_form_enter:
  "isFormScreen (screen m) \<Longrightarrow> \<not> confirmDelete m \<Longrightarrow>
   Update env (KeyMsg ''enter'') m w =
     (if screen m = screenPolicyAddRule \<or> screen m = screenPolicyEditRule
      then handlePolicyFormSubmit env m w else handleGlobalFormSubmit env m w)"
  by (simp add: Update_key screenKey_form_enter)

text \<open>The focus.\<close>

lemma length_cycleFocus: "length (inputs (cycleFocus k m)) = length (inputs m)"
  by (simp add: cycleFocus_def Let_def)

lemma length_cycleFocus_funpow: "length (inputs ((cycleFocus k ^^ N) m)) = length (inputs m)"
  by (induction N) (simp_all add: length_cycleFocus)

lemma focusIndex_cycleFocus_forward:
  "k \<noteq> ''up'' \<Longrightarrow> k \<noteq> ''shift+tab'' \<Longrightarrow>
   focusIndex (cycleFocus k m) =
     (if focusIndex m < int (length (inputs m)) - 1 then focusIndex m + 1 else 0)"
  by (simp add: cycleFocus_def Let_def)

lemma focusIndex_cycleFocus_backward:
  "k = ''up'' \<or> k = ''shift+tab'' \<Longrightarrow>
   focusIndex (cycleFocus k m) =
     (if focusIndex m > 0 then focusIndex m - 1 else int (length (inputs m)) - 1)"
  by (auto simp add: cycleFocus_def Let_def)

lemma footer_cycleFocus:
  "footer (cycleFocus k m) =
     (if (k = ''up'' \<or> k = ''shift+tab'') \<and> focusIndex m > 0 then [] else footer m)"
  by (simp add: cycleFocus_def Let_def)

lemma handlePolicyFormSubmit_advance:
  "focusIndex m < int (length (inputs m)) - 1 \<Longrightarrow>
   handlePolicyFormSubmit env m w = Inr (cycleFocus ''tab'' m, CmdNil, w)"
  by (simp add: handlePolicyFormSubmit_def)

lemma handleGlobalFormSubmit_advance:
  "focusIndex m < int (length (inputs m)) - 1 \<Longrightarrow>
   handleGlobalFormSubmit env m w = Inr (cycleFocus ''tab'' m, CmdNil, w)"
  by (simp add: handleGlobalFormSubmit_def)

text \<open>The delete-confirmation overlay.\<close>

lemma handleDeleteConfirm_other:
  "k \<noteq> ''y'' \<Longrightarrow>
   handleDeleteConfirm env k m w =
     Inr (m\<lparr>confirmDelete := False, deleteTarget := []\<rparr>, CmdNil, w)"
  by (simp add: handleDeleteConfirm_def)

lemma handleDeleteConfirm_rules:
  assumes "screen m = screenPolicyRules"
    and "r = \<lparr>name = deleteTarget m, pattern = [], key = []\<rparr>"
  shows "\<exists>m' w'. handleDeleteConfirm env ''y'' m w = Inr (m', CmdNil, w')
           \<and> \<not> confirmDelete m' \<and> deleteTarget m' = []
           \<and> store w' = snd (repoRemoveRule env (store w) r)
           \<and> calls w' = calls w @ RemoveRule r
                 # (if fst (repoRemoveRule env (store w) r) = None then [FetchRules] else [])
           \<and> globalRules m' = globalRules m
           \<and> (fst (repoRemoveRule env (store w) r) = None
                \<longrightarrow> rules m' = getCurrRules env (store w')
                    \<and> footer m' = ''Rule removed successfully!'')
           \<and> (\<forall>e. fst (repoRemoveRule env (store w) r) = Some e
                \<longrightarrow> rules m' = rules m \<and> footer m' = ''Error removing rule: '' @ e)"
  using assms
  by (simp add: handleDeleteConfirm_def invoke_def refreshRules_def fetched_def
        updateRuleList_def Let_def split: prod.splits option.splits)

lemma handleDeleteConfirm_globalRules:
  assumes "screen m = screenTrustGlobalRules"
    and "gr = \<lparr>ruleName = deleteTarget m, ruleType = [], rulePatterns = [], threshold = 0\<rparr>"
  shows "\<exists>m' w'. handleDeleteConfirm env ''y'' m w = Inr (m', CmdNil, w')
           \<and> \<not> confirmDelete m' \<and> deleteTarget m' = []
           \<and> store w' = snd (repoRemoveGlobalRule env (store w) gr)
           \<and> calls w' = calls w @ RemoveGlobalRule gr
                 # (if fst (repoRemoveGlobalRule env (store w) gr) = None
                    then [FetchGlobalRules] else [])
           \<and> rules m' = rules m
           \<and> (fst (repoRemoveGlobalRule env (store w) gr) = None
                \<longrightarrow> globalRules m' = getGlobalRules env (store w')
                    \<and> footer m' = ''Global rule removed!'')
           \<and> (\<forall>e. fst (repoRemoveGlobalRule env (store w) gr) = Some e
                \<longrightarrow> globalRules m' = globalRules m
                    \<and> footer m' = ''Error removing global rule: '' @ e)"
  using assms
  by (simp add: handleDeleteConfirm_def invoke_def refreshGlobalRules_def fetched_def
        updateGlobalRuleList_def Let_def split: prod.splits option.splits)

text \<open>The list screens.\<close>

lemma handleRulesListKey_readOnly:
  "readOnly m \<Longrightarrow> handleRulesListKey env k m w = delegateList env (KeyMsg k) m w"
  by (simp add: handleRulesListKey_def)

lemma delegateList_shape:
  "\<exists>m' c. delegateList env ms m w = Inr (m', c, w)
           \<and> rules m' = rules m \<and> globalRules m' = globalRules m
           \<and> screen m' = screen m \<and> footer m' = footer m"
  by (simp add: delegateList_def split: prod.splits)

text \<open>The footer.\<close>

lemma footer_setInput [simp]: "footer (setInput i s m) = footer m"
  by (simp add: setInput_def)

lemma footer_initRuleInputsPrefilled [simp]:
  "footer (initRuleInputsPrefilled r m) = footer m"
  by (simp add: initRuleInputsPrefilled_def initRuleInputs_def)

lemma footer_initGlobalRuleInputsPrefilled [simp]:
  "footer (initGlobalRuleInputsPrefilled gr m) = footer m"
  by (simp add: initGlobalRuleInputsPrefilled_def initGlobalRuleInputs_def Let_def)

lemma footer_delegateList:
  "delegateList env ms m w = Inr (m', c, w') \<Longrightarrow> footer m' = footer m"
  by (auto simp: delegateList_def split: prod.splits if_splits)

lemma footer_delegate:
  "delegate env ms m w = Inr (m', c, w') \<Longrightarrow> footer m' = footer m"
  by (auto simp: delegate_def split: prod.splits if_splits screen.splits)

lemma footer_handleEnter:
  "handleEnter env m w = Inr (m', c, w') \<Longrightarrow> footer m' = footer m"
  by (auto simp: handleEnter_def refreshRules_def refreshGlobalRules_def updateRuleList_def
        updateGlobalRuleList_def split: screen.splits option.splits if_splits)

lemma footer_handleRulesListKey:
  assumes "handleRulesListKey env k m w = Inr (m', c, w')"
    and "\<not> (screen m = screenPolicyRules \<and> \<not> readOnly m
            \<and> (k = ''u'' \<or> k = ''k'' \<or> k = ''j''))"
  shows "footer m' = footer m"
  using assms
  by (auto simp: handleRulesListKey_def initRuleInputs_def initGlobalRuleInputs_def
        dest: footer_delegateList split: if_splits option.splits)

lemma footer_screenKey:
  assumes "screenKey env k m w = Inr (m', c, w')"
    and "\<not> (isFormScreen (screen m) \<and> k = ''enter''
            \<and> \<not> focusIndex m < int (length (inputs m)) - 1)"
    and "\<not> (screen m = screenPolicyRules \<and> \<not> readOnly m
            \<and> (k = ''u'' \<or> k = ''k'' \<or> k = ''j''))"
  shows "footer m' =
           (if isFormScreen (screen m) \<and> (k = ''up'' \<or> k = ''shift+tab'') \<and> 0 < focusIndex m
            then [] else footer m)"
proof (cases "isFormScreen (screen m)")
  case False
  then have "handleEnter env m w = Inr (m', c, w')
             \<or> delegate env (KeyMsg k) m w = Inr (m', c, w')
             \<or> handleRulesListKey env k m w = Inr (m', c, w')"
    using assms(1) screen_kinds [of "screen m"]
    by (auto simp: screenKey_def split: if_splits)
  then show ?thesis
    using False assms(3) footer_handleEnter footer_delegate footer_handleRulesListKey
    by (metis (no_types, lifting))
next
  case True
  show ?thesis
  proof (cases "k = ''enter''")
    case e: True
    then have lt: "focusIndex m < int (length (inputs m)) - 1" using True assms(2) by blast
    have "screenKey env k m w = Inr (cycleFocus ''tab'' m, CmdNil, w)"
      using True e lt
      by (auto simp: screenKey_def isFormScreen_def handlePolicyFormSubmit_advance
            handleGlobalFormSubmit_advance)
    then have "m' = cycleFocus ''tab'' m" using assms(1) by simp
    then show ?thesis using e by (simp add: footer_cycleFocus)
  next
    case ne: False
    show ?thesis
    proof (cases "isCycleKey k")
      case True
      then have "screenKey env k m w = Inr (cycleFocus k m, CmdNil, w)"
        using \<open>isFormScreen (screen m)\<close> ne
        by (auto simp: screenKey_def isFormScreen_def)
      then have "m' = cycleFocus k m" using assms(1) by simp
      then show ?thesis using \<open>isFormScreen (screen m)\<close> by (simp add: footer_cycleFocus)
    next
      case False
      then have "screenKey env k m w = delegate env (KeyMsg k) m w"
        using \<open>isFormScreen (screen m)\<close> ne
        by (auto simp: screenKey_def isFormScreen_def)
      then have "footer m' = footer m" using assms(1) footer_delegate by metis
      moreover have "\<not> (k = ''up'' \<or> k = ''shift+tab'')"
        using False by (auto simp: isCycleKey_def)
      ultimately show ?thesis by simp
    qed
  qed
qed



subsection \<open>Auxiliary facts on text and numbers\<close>






















subsection \<open>Auxiliary facts on prefilled forms\<close>

lemma length_initInputs: "length (initInputs fs) = length fs"
  by (simp add: initInputs_def)






lemma prefilled_rule_shape:
  "focusIndex (initRuleInputsPrefilled r m) = 0"
  "length (inputs (initRuleInputsPrefilled r m)) = 3"
  "confirmDelete (initRuleInputsPrefilled r m) = confirmDelete m"
  by (simp_all add: initRuleInputsPrefilled_def setInput_def initRuleInputs_def
        length_initInputs ruleFields_def)






lemma prefilled_globalRule_shape:
  "focusIndex (initGlobalRuleInputsPrefilled gr m) = 0"
  "length (inputs (initGlobalRuleInputsPrefilled gr m)) = 4"
  "confirmDelete (initGlobalRuleInputsPrefilled gr m) = confirmDelete m"
  by (simp_all add: initGlobalRuleInputsPrefilled_def setInput_def initGlobalRuleInputs_def
        length_initInputs globalRuleFields_def Let_def)









subsection \<open>The invariant\<close>

lemma wellFormed_cycleFocus: "wellFormed m \<Longrightarrow> wellFormed (cycleFocus k m)"
  by (auto simp: wellFormed_def cycleFocus_def Let_def)

lemma wellFormed_delegate:
  "delegate env ms m w = Inr (m', c, w') \<Longrightarrow> wellFormed m \<Longrightarrow> wellFormed m'"
  by (auto simp: delegate_def wellFormed_def split: screen.splits prod.splits if_splits)

lemma wellFormed_delegateList:
  "delegateList env ms m w = Inr (m', c, w') \<Longrightarrow> wellFormed m \<Longrightarrow> wellFormed m'"
  by (auto simp: delegateList_def wellFormed_def split: prod.splits if_splits)

lemma wellFormed_resize: "wellFormed (resize wd ht m) = wellFormed m"
  by (simp add: resize_def wellFormed_def)

lemma wellFormed_handleDeleteConfirm:
  "handleDeleteConfirm env k m w = Inr (m', c, w') \<Longrightarrow> wellFormed m \<Longrightarrow> wellFormed m'"
  by (auto simp: handleDeleteConfirm_def wellFormed_def invoke_def refreshRules_def
        refreshGlobalRules_def updateRuleList_def updateGlobalRuleList_def Let_def
        split: screen.splits prod.splits option.splits if_splits)

lemma wellFormed_escape: "\<not> confirmDelete m \<Longrightarrow> wellFormed m \<Longrightarrow> wellFormed (escape m)"
  by (simp add: escape_def wellFormed_def)

lemma wellFormed_handleEnter:
  "handleEnter env m w = Inr (m', c, w') \<Longrightarrow> \<not> confirmDelete m \<Longrightarrow> wellFormed m
     \<Longrightarrow> wellFormed m'"
  by (auto simp: handleEnter_def wellFormed_def refreshRules_def refreshGlobalRules_def
        updateRuleList_def updateGlobalRuleList_def
        split: screen.splits option.splits if_splits)

lemma wellFormed_handleReorder:
  "handleReorderUp env m w = Inr (m', c, w') \<Longrightarrow> wellFormed m \<Longrightarrow> wellFormed m'"
  "handleReorderDown env m w = Inr (m', c, w') \<Longrightarrow> wellFormed m \<Longrightarrow> wellFormed m'"
  by (auto simp: handleReorderUp_def handleReorderDown_def wellFormed_def invoke_def
        updateRuleList_def Let_def split: prod.splits option.splits if_splits)

lemma wellFormed_prefilled:
  "\<not> confirmDelete m \<Longrightarrow> wellFormed ((initRuleInputs m)\<lparr>screen := sc\<rparr>)"
  "\<not> confirmDelete m \<Longrightarrow> wellFormed ((initGlobalRuleInputs m)\<lparr>screen := sc\<rparr>)"
  "\<not> confirmDelete m \<Longrightarrow> wellFormed ((initRuleInputsPrefilled r m)\<lparr>screen := sc\<rparr>)"
  "\<not> confirmDelete m \<Longrightarrow> wellFormed ((initGlobalRuleInputsPrefilled gr m)\<lparr>screen := sc\<rparr>)"
  by (simp_all add: wellFormed_def prefilled_rule_shape prefilled_globalRule_shape
        initRuleInputs_def initGlobalRuleInputs_def length_initInputs ruleFields_def
        globalRuleFields_def)

lemma wellFormed_handleRulesListKey:
  assumes "handleRulesListKey env k m w = Inr (m', c, w')"
    and "screen m = screenPolicyRules \<or> screen m = screenTrustGlobalRules"
    and "\<not> confirmDelete m" and "wellFormed m"
  shows "wellFormed m'"
proof -
  have d: "wellFormed (m\<lparr>confirmDelete := True, deleteTarget := t\<rparr>)" for t
    using assms(2,4) by (auto simp: wellFormed_def)
  show ?thesis
    using assms(1,3,4) d
    by (auto simp: handleRulesListKey_def wellFormed_prefilled
          dest: wellFormed_delegateList wellFormed_handleReorder
          split: if_splits option.splits)
qed

lemma wellFormed_submit:
  "handlePolicyFormSubmit env m w = Inr (m', c, w') \<Longrightarrow> \<not> confirmDelete m \<Longrightarrow> wellFormed m
     \<Longrightarrow> wellFormed m'"
  "handleGlobalFormSubmit env m w = Inr (m', c, w') \<Longrightarrow> \<not> confirmDelete m \<Longrightarrow> wellFormed m
     \<Longrightarrow> wellFormed m'"
  by (auto simp: handlePolicyFormSubmit_def handleGlobalFormSubmit_def wellFormed_cycleFocus
        invoke_def refreshRules_def refreshGlobalRules_def updateRuleList_def
        updateGlobalRuleList_def Let_def wellFormed_def [of "_\<lparr>footer := _\<rparr>"]
        wellFormed_def [of "_\<lparr>footer := _, screen := _\<rparr>"]
        wellFormed_def [of m]
        split: if_splits prod.splits option.splits screen.splits)

lemma wellFormed_screenKey:
  assumes "screenKey env k m w = Inr (m', c, w')" and "\<not> confirmDelete m" and "wellFormed m"
  shows "wellFormed m'"
proof -
  consider (menu) "screen m = screenChoice \<or> screen m = screenPolicy \<or> screen m = screenTrust"
    | (lists) "screen m = screenPolicyRules \<or> screen m = screenTrustGlobalRules"
    | (form) "isFormScreen (screen m)"
    using screen_kinds [of "screen m"] by blast
  then show ?thesis
  proof cases
    case menu
    then have "handleEnter env m w = Inr (m', c, w')
               \<or> delegate env (KeyMsg k) m w = Inr (m', c, w')"
      using assms(1) by (auto simp: screenKey_def split: if_splits)
    then show ?thesis
      using assms(2,3) wellFormed_handleEnter wellFormed_delegate by blast
  next
    case lists
    then have "handleRulesListKey env k m w = Inr (m', c, w')"
      using assms(1) by (simp add: screenKey_list)
    then show ?thesis using lists assms(2,3) by (rule wellFormed_handleRulesListKey)
  next
    case form
    then have "handlePolicyFormSubmit env m w = Inr (m', c, w')
               \<or> handleGlobalFormSubmit env m w = Inr (m', c, w')
               \<or> m' = cycleFocus k m
               \<or> delegate env (KeyMsg k) m w = Inr (m', c, w')"
      using assms(1) by (auto simp: screenKey_def isFormScreen_def split: if_splits)
    then show ?thesis
    proof (elim disjE)
      assume "handlePolicyFormSubmit env m w = Inr (m', c, w')"
      then show ?thesis using assms(2,3) by (rule wellFormed_submit(1))
    next
      assume "handleGlobalFormSubmit env m w = Inr (m', c, w')"
      then show ?thesis using assms(2,3) by (rule wellFormed_submit(2))
    next
      assume "m' = cycleFocus k m"
      then show ?thesis using assms(3) by (simp add: wellFormed_cycleFocus)
    next
      assume "delegate env (KeyMsg k) m w = Inr (m', c, w')"
      then show ?thesis using assms(3) by (rule wellFormed_delegate)
    qed
  qed
qed

lemma wellFormed_Update:
  assumes "Update env ms m w = Inr (m', c, w')" and "wellFormed m"
  shows "wellFormed m'"
proof (cases ms)
  case (WindowSizeMsg wd ht)
  then have "delegate env ms (resize wd ht m) w = Inr (m', c, w')"
    using assms(1) by (simp add: Update_def)
  then show ?thesis using assms(2) wellFormed_delegate wellFormed_resize by blast
next
  case (OtherMsg n)
  then have "delegate env ms m w = Inr (m', c, w')"
    using assms(1) by (simp add: Update_def)
  then show ?thesis using assms(2) by (rule wellFormed_delegate)
next
  case (KeyMsg k)
  show ?thesis
  proof (cases "confirmDelete m")
    case True
    then have "handleDeleteConfirm env k m w = Inr (m', c, w')"
      using assms(1) KeyMsg by (simp add: Update_key)
    then show ?thesis using assms(2) by (rule wellFormed_handleDeleteConfirm)
  next
    case False
    then have "m' = m \<or> m' = escape m \<or> screenKey env k m w = Inr (m', c, w')"
      using assms(1) KeyMsg by (auto simp: Update_key split: if_splits)
    then show ?thesis
      using False assms(2) wellFormed_escape wellFormed_screenKey by blast
  qed
qed

lemma wellFormed_run:
  "run env xs m w = Inr (m', c, w') \<Longrightarrow> wellFormed m \<Longrightarrow> wellFormed m'"
proof (induction xs arbitrary: m w)
  case Nil
  then show ?case by simp
next
  case (Cons x xs)
  from Cons.prems(1) obtain m1 c1 w1 where
    u: "Update env x m w = Inr (m1, c1, w1)"
    and r: "(c1 = Quit \<and> m' = m1) \<or> (c1 \<noteq> Quit \<and> run env xs m1 w1 = Inr (m', c, w'))"
    by (auto split: sum.splits if_splits)
  have "wellFormed m1" using u Cons.prems(2) by (rule wellFormed_Update)
  then show ?case using r Cons.IH by blast
qed

lemma wellFormed_initialModel:
  "initialModel env repoErr optReadOnly signer optPolicyName w = Inr (m, w') \<Longrightarrow> wellFormed m"
  by (auto simp: initialModel_def wellFormed_def length_initInputs ruleFields_def
        split: option.splits if_splits signerResult.splits)

subsection \<open>Facts on the concrete models\<close>

lemma demoModel_fields:
  "screen demoModel = screenPolicyRules"
  "rules demoModel = [ruleR1, ruleR2, ruleR3]"
  "globalRules demoModel = [globalG1]"
  "index (ruleList demoModel) = 1"
  "focusIndex demoModel = 0"
  "footer demoModel = ''Rule added successfully!''"
  "readOnly demoModel = False"
  "confirmDelete demoModel = False"
  "deleteTarget demoModel = []"
  by (simp_all add: demoModel_def)


section \<open>Claims\<close>

text \<open>
  C1 (as amended). When the adjacent swap is made and \<^verbatim>\<open>repoReorderRules\<close> fails, the handler
  returns the model that holds the swapped rules: the swap is not rolled back. (In Go the
  swap writes through the slice into the array that the model before the call shares, so no
  copy with the old order is left either.) The list view
  is not rebuilt, the footer is the error text, no command is returned, and the call is in
  the log. This holds for \<^verbatim>\<open>handleReorderUp\<close> (index \<open>i\<close> with \<open>0 < i < length\<close>) and for
  \<^verbatim>\<open>handleReorderDown\<close> (index \<open>i\<close> with \<open>0 \<le> i < length - 1\<close>).
\<close>

theorem reorder_failure_keeps_swap:
  "(0 < index (ruleList m) \<and> index (ruleList m) < int (length (rules m))
      \<and> rs = (rules m)[nat (index (ruleList m)) := rules m ! nat (index (ruleList m) - 1),
                       nat (index (ruleList m) - 1) := rules m ! nat (index (ruleList m))]
      \<and> repoReorderRules env (store w) rs = (Some e, s')
    \<longrightarrow> handleReorderUp env m w =
          Inr (m\<lparr>rules := rs, footer := ''Error reordering rules: '' @ e\<rparr>, CmdNil,
               \<lparr>store = s', calls = calls w @ [ReorderRules rs]\<rparr>))
 \<and> (0 \<le> index (ruleList m) \<and> index (ruleList m) < int (length (rules m)) - 1
      \<and> rs = (rules m)[nat (index (ruleList m)) := rules m ! nat (index (ruleList m) + 1),
                       nat (index (ruleList m) + 1) := rules m ! nat (index (ruleList m))]
      \<and> repoReorderRules env (store w) rs = (Some e, s')
    \<longrightarrow> handleReorderDown env m w =
          Inr (m\<lparr>rules := rs, footer := ''Error reordering rules: '' @ e\<rparr>, CmdNil,
               \<lparr>store = s', calls = calls w @ [ReorderRules rs]\<rparr>))"
  by (auto simp add: handleReorderUp_def handleReorderDown_def invoke_def Let_def)

theorem reorder_failure_keeps_swap_witness:
  "handleReorderUp (memEnv (Some ''disk full'')) demoModel demoWorld =
     Inr (demoModel\<lparr>rules := [ruleR2, ruleR1, ruleR3],
                     footer := ''Error reordering rules: disk full''\<rparr>, CmdNil,
          \<lparr>store = ([ruleR1, ruleR2, ruleR3], [globalG1]),
           calls = [ReorderRules [ruleR2, ruleR1, ruleR3]]\<rparr>)
   \<and> handleReorderDown (memEnv (Some ''disk full'')) demoModel demoWorld =
     Inr (demoModel\<lparr>rules := [ruleR1, ruleR3, ruleR2],
                     footer := ''Error reordering rules: disk full''\<rparr>, CmdNil,
          \<lparr>store = ([ruleR1, ruleR2, ruleR3], [globalG1]),
           calls = [ReorderRules [ruleR1, ruleR3, ruleR2]]\<rparr>)"
proof -
  let ?e = "memEnv (Some ''disk full'')"
  let ?s = "([ruleR1, ruleR2, ruleR3], [globalG1])"
  have w: "store demoWorld = ?s" "calls demoWorld = []"
    by (simp_all add: demoWorld_def memWorld_def)
  have r: "repoReorderRules ?e (store demoWorld) rs = (Some ''disk full'', ?s)" for rs
    by (simp add: memEnv_def attempt_def w)
  have up: "handleReorderUp ?e demoModel demoWorld =
     Inr (demoModel\<lparr>rules := [ruleR2, ruleR1, ruleR3],
                     footer := ''Error reordering rules: disk full''\<rparr>, CmdNil,
          \<lparr>store = ?s, calls = [ReorderRules [ruleR2, ruleR1, ruleR3]]\<rparr>)"
    using reorder_failure_keeps_swap
            [THEN conjunct1,
             of demoModel "[ruleR2, ruleR1, ruleR3]" ?e demoWorld "''disk full''" ?s]
          r [of "[ruleR2, ruleR1, ruleR3]"]
    by (simp add: demoModel_fields w(2))
  have down: "handleReorderDown ?e demoModel demoWorld =
     Inr (demoModel\<lparr>rules := [ruleR1, ruleR3, ruleR2],
                     footer := ''Error reordering rules: disk full''\<rparr>, CmdNil,
          \<lparr>store = ?s, calls = [ReorderRules [ruleR1, ruleR3, ruleR2]]\<rparr>)"
    using reorder_failure_keeps_swap
            [THEN conjunct2,
             of demoModel "[ruleR1, ruleR3, ruleR2]" ?e demoWorld "''disk full''" ?s]
          r [of "[ruleR1, ruleR3, ruleR2]"]
    by (simp add: demoModel_fields w(2))
  show ?thesis using up down by simp
qed

text \<open>
  C1 as stated fails: with two rules and a repository whose calls fail, the keys Enter and
  Enter reach the rules screen with the rules in the order R1, R2; after the key \<^verbatim>\<open>j\<close> the
  footer reports the failed reorder, the store still holds R1, R2, and the rules of the
  model are R2, R1. The same happens with \<^verbatim>\<open>down\<close> and then \<^verbatim>\<open>u\<close>.
\<close>

theorem reorder_rollback_counterexample:
  "map_option rules (resModel (session (Some ''disk full'') [ruleR1, ruleR2] []
      [''enter'', ''enter''])) = Some [ruleR1, ruleR2]
   \<and> map_option rules (resModel (session (Some ''disk full'') [ruleR1, ruleR2] []
      [''enter'', ''enter'', ''j''])) = Some [ruleR2, ruleR1]
   \<and> map_option footer (resModel (session (Some ''disk full'') [ruleR1, ruleR2] []
      [''enter'', ''enter'', ''j''])) = Some ''Error reordering rules: disk full''
   \<and> map_option store (resWorld (session (Some ''disk full'') [ruleR1, ruleR2] []
      [''enter'', ''enter'', ''j''])) = Some ([ruleR1, ruleR2], [])
   \<and> map_option rules (resModel (session (Some ''disk full'') [ruleR1, ruleR2] []
      [''enter'', ''enter'', ''down''])) = Some [ruleR1, ruleR2]
   \<and> map_option rules (resModel (session (Some ''disk full'') [ruleR1, ruleR2] []
      [''enter'', ''enter'', ''down'', ''u''])) = Some [ruleR2, ruleR1]"
  by code_simp

text \<open>
  C2 (as amended). A key press that returns leaves the footer as it was, unless it is
  \<^verbatim>\<open>esc\<close>, \<^verbatim>\<open>y\<close> in the overlay, Enter from the last field of a form, or a reorder key
  (\<^verbatim>\<open>u\<close>, \<^verbatim>\<open>k\<close>, \<^verbatim>\<open>j\<close>) on the rules screen outside read-only mode; with one exception: on a
  form screen (overlay closed) the backward focus keys \<^verbatim>\<open>up\<close> and \<^verbatim>\<open>shift+tab\<close> clear the
  footer when the focus index is above 0. The forward keys \<^verbatim>\<open>tab\<close> and \<^verbatim>\<open>down\<close>, and the
  backward keys at focus index 0, leave it unchanged.
\<close>

theorem footer_changes_only_by_operation:
  assumes "Update env (KeyMsg k) m w = Inr (m', c, w')"
    and "k \<noteq> ''esc''"
    and "\<not> (confirmDelete m \<and> k = ''y'')"
    and "\<not> (isFormScreen (screen m) \<and> k = ''enter''
            \<and> \<not> focusIndex m < int (length (inputs m)) - 1)"
    and "\<not> (screen m = screenPolicyRules \<and> \<not> readOnly m
            \<and> (k = ''u'' \<or> k = ''k'' \<or> k = ''j''))"
  shows "footer m' =
           (if \<not> confirmDelete m \<and> isFormScreen (screen m)
               \<and> (k = ''up'' \<or> k = ''shift+tab'') \<and> 0 < focusIndex m
            then [] else footer m)"
proof (cases "confirmDelete m")
  case True
  then have "k \<noteq> ''y''" using assms(3) by blast
  then have "m' = m\<lparr>confirmDelete := False, deleteTarget := []\<rparr>"
    using True assms(1) by (simp add: Update_key handleDeleteConfirm_other)
  then show ?thesis using True by simp
next
  case False
  show ?thesis
  proof (cases "k = ''ctrl+c'' \<or> (k = ''q'' \<and> \<not> isFormScreen (screen m))")
    case True
    then have "m' = m" using False assms(1) by (auto simp: Update_key)
    then show ?thesis using True by auto
  next
    case nq: False
    then have "screenKey env k m w = Inr (m', c, w')"
      using False assms(1,2) by (auto simp: Update_key)
    from footer_screenKey [OF this assms(4,5)] show ?thesis using False by simp
  qed
qed

theorem footer_changes_only_by_operation_witness:
  "Update (memEnv None) (KeyMsg ''tab'')
     ((initRuleInputs demoModel)\<lparr>screen := screenPolicyAddRule, focusIndex := 1\<rparr>) demoWorld
   = Inr (cycleFocus ''tab''
            ((initRuleInputs demoModel)\<lparr>screen := screenPolicyAddRule, focusIndex := 1\<rparr>),
          CmdNil, demoWorld)
   \<and> footer (cycleFocus ''tab''
        ((initRuleInputs demoModel)\<lparr>screen := screenPolicyAddRule, focusIndex := 1\<rparr>))
      = ''Rule added successfully!''
   \<and> Update (memEnv None) (KeyMsg ''up'')
     ((initRuleInputs demoModel)\<lparr>screen := screenPolicyAddRule, focusIndex := 1\<rparr>) demoWorld
   = Inr (cycleFocus ''up''
            ((initRuleInputs demoModel)\<lparr>screen := screenPolicyAddRule, focusIndex := 1\<rparr>),
          CmdNil, demoWorld)
   \<and> footer (cycleFocus ''up''
        ((initRuleInputs demoModel)\<lparr>screen := screenPolicyAddRule, focusIndex := 1\<rparr>))
      = []"
proof -
  let ?m = "(initRuleInputs demoModel)\<lparr>screen := screenPolicyAddRule, focusIndex := 1\<rparr>"
  have f: "isFormScreen (screen ?m)" "\<not> confirmDelete ?m" "focusIndex ?m = 1"
    "footer ?m = ''Rule added successfully!''"
    by (simp_all add: isFormScreen_def initRuleInputs_def demoModel_fields)
  have t: "Update (memEnv None) (KeyMsg ''tab'') ?m demoWorld
             = Inr (cycleFocus ''tab'' ?m, CmdNil, demoWorld)"
    using f(1,2) by (auto simp: Update_key screenKey_def isFormScreen_def isCycleKey_def)
  have u: "Update (memEnv None) (KeyMsg ''up'') ?m demoWorld
             = Inr (cycleFocus ''up'' ?m, CmdNil, demoWorld)"
    using f(1,2) by (auto simp: Update_key screenKey_def isFormScreen_def isCycleKey_def)
  have "footer (cycleFocus ''tab'' ?m) = ''Rule added successfully!''"
    using footer_changes_only_by_operation [OF t] f by simp
  moreover have "footer (cycleFocus ''up'' ?m) = []"
    using footer_changes_only_by_operation [OF u] f by simp
  ultimately show ?thesis using t u by simp
qed

text \<open>
  C2 as stated fails: with a repository whose calls fail, the keys Enter, Enter, \<^verbatim>\<open>a\<close> and
  three times Enter leave the console on the add-rule form with the footer of the failed
  submit; the focus key \<^verbatim>\<open>up\<close> then clears the footer.
\<close>

theorem footer_cycle_back_counterexample:
  "map_option screen (resModel (session (Some ''disk full'') [] []
      [''enter'', ''enter'', ''a'', ''enter'', ''enter'', ''enter''])) = Some screenPolicyAddRule
   \<and> map_option footer (resModel (session (Some ''disk full'') [] []
      [''enter'', ''enter'', ''a'', ''enter'', ''enter'', ''enter''])) = Some ''Error: disk full''
   \<and> map_option screen (resModel (session (Some ''disk full'') [] []
      [''enter'', ''enter'', ''a'', ''enter'', ''enter'', ''enter'', ''up'']))
       = Some screenPolicyAddRule
   \<and> map_option footer (resModel (session (Some ''disk full'') [] []
      [''enter'', ''enter'', ''a'', ''enter'', ''enter'', ''enter'', ''up''])) = Some []"
  by code_simp

text \<open>
  C3 (as amended). Outside the delete-confirmation overlay, the key \<^verbatim>\<open>ctrl+c\<close> returns the
  quit command and leaves model and repository alone, on every screen. While the overlay is
  active the key is taken by the overlay like any key other than \<^verbatim>\<open>y\<close>: the overlay is
  closed, the target is cleared and no command is returned.
\<close>

theorem ctrl_c_quits_outside_overlay:
  "Update env (KeyMsg ''ctrl+c'') m w =
     (if confirmDelete m
      then Inr (m\<lparr>confirmDelete := False, deleteTarget := []\<rparr>, CmdNil, w)
      else Inr (m, Quit, w))"
  by (simp add: Update_key handleDeleteConfirm_other)

theorem ctrl_c_quits_outside_overlay_witness:
  "Update (memEnv None) (KeyMsg ''ctrl+c'') demoModel demoWorld = Inr (demoModel, Quit, demoWorld)"
  using ctrl_c_quits_outside_overlay [of "memEnv None" demoModel demoWorld]
  by (simp add: demoModel_fields)

text \<open>
  C3 as stated fails: after start-up with one rule, the keys Enter, Enter and \<^verbatim>\<open>d\<close> open the
  overlay, and the session that goes on with \<^verbatim>\<open>ctrl+c\<close> does not end with the quit command.
\<close>

theorem ctrl_c_in_overlay_counterexample:
  "map_option confirmDelete
     (resModel (session None [ruleR1] [] [''enter'', ''enter'', ''d''])) = Some True
   \<and> resCmd (session None [ruleR1] [] [''enter'', ''enter'', ''d'', ''ctrl+c'']) = Some CmdNil
   \<and> map_option confirmDelete
     (resModel (session None [ruleR1] [] [''enter'', ''enter'', ''d'', ''ctrl+c''])) = Some False"
  by code_simp

text \<open>
  C4. The overlay is active on a list screen only (\<open>wellFormed\<close>, kept by every update).
  There, a key press never panics and returns no command; afterwards the overlay is closed
  and the target is cleared. A remove call is among the calls made exactly when the key is
  \<^verbatim>\<open>y\<close>. With \<^verbatim>\<open>y\<close> the repository is called: on the rules screen the store afterwards is the
  one \<^verbatim>\<open>repoRemoveRule\<close> returns for the rule named by the target, on the global-rules screen
  the one \<^verbatim>\<open>repoRemoveGlobalRule\<close> returns for the global rule named by it; the call is the
  first one made, followed by the fetch of the collection exactly when the removal
  succeeded; then the collection is the fetched one and the footer reports success, and
  after a failure the collections are unchanged and the footer holds the error. For every
  other key the world (store and call log) and both collections are unchanged.
\<close>

theorem delete_overlay_confirm:
  assumes "confirmDelete m"
    and "screen m = screenPolicyRules \<or> screen m = screenTrustGlobalRules"
    and "r = \<lparr>name = deleteTarget m, pattern = [], key = []\<rparr>"
    and "gr = \<lparr>ruleName = deleteTarget m, ruleType = [], rulePatterns = [], threshold = 0\<rparr>"
  shows "\<exists>m' w'. Update env (KeyMsg k) m w = Inr (m', CmdNil, w')
           \<and> \<not> confirmDelete m' \<and> deleteTarget m' = []
           \<and> ((\<exists>c\<in>set (newCalls w w'). isRemove c) \<longleftrightarrow> k = ''y'')
           \<and> (k = ''y'' \<longrightarrow> hd (newCalls w w') =
                 (if screen m = screenPolicyRules then RemoveRule r else RemoveGlobalRule gr))
           \<and> (k = ''y'' \<and> screen m = screenPolicyRules \<longrightarrow>
                 store w' = snd (repoRemoveRule env (store w) r)
                 \<and> calls w' = calls w @ RemoveRule r
                       # (if fst (repoRemoveRule env (store w) r) = None
                          then [FetchRules] else [])
                 \<and> globalRules m' = globalRules m
                 \<and> (fst (repoRemoveRule env (store w) r) = None
                      \<longrightarrow> rules m' = getCurrRules env (store w')
                          \<and> footer m' = ''Rule removed successfully!'')
                 \<and> (\<forall>e. fst (repoRemoveRule env (store w) r) = Some e
                      \<longrightarrow> rules m' = rules m \<and> footer m' = ''Error removing rule: '' @ e))
           \<and> (k = ''y'' \<and> screen m = screenTrustGlobalRules \<longrightarrow>
                 store w' = snd (repoRemoveGlobalRule env (store w) gr)
                 \<and> calls w' = calls w @ RemoveGlobalRule gr
                       # (if fst (repoRemoveGlobalRule env (store w) gr) = None
                          then [FetchGlobalRules] else [])
                 \<and> rules m' = rules m
                 \<and> (fst (repoRemoveGlobalRule env (store w) gr) = None
                      \<longrightarrow> globalRules m' = getGlobalRules env (store w')
                          \<and> footer m' = ''Global rule removed!'')
                 \<and> (\<forall>e. fst (repoRemoveGlobalRule env (store w) gr) = Some e
                      \<longrightarrow> globalRules m' = globalRules m
                          \<and> footer m' = ''Error removing global rule: '' @ e))
           \<and> (k \<noteq> ''y'' \<longrightarrow> w' = w \<and> rules m' = rules m \<and> globalRules m' = globalRules m)"
proof (cases "k = ''y''")
  case False
  then have "Update env (KeyMsg k) m w
               = Inr (m\<lparr>confirmDelete := False, deleteTarget := []\<rparr>, CmdNil, w)"
    using assms(1) by (simp add: Update_key handleDeleteConfirm_other)
  then show ?thesis using False by (simp add: newCalls_self)
next
  case True
  have upd: "Update env (KeyMsg k) m w = handleDeleteConfirm env ''y'' m w"
    using assms(1) True by (simp add: Update_key)
  show ?thesis
  proof (cases "screen m = screenPolicyRules")
    case True
    from handleDeleteConfirm_rules [OF True assms(3), of env w]
    obtain m' w' where h:
      "handleDeleteConfirm env ''y'' m w = Inr (m', CmdNil, w')"
      "\<not> confirmDelete m'" "deleteTarget m' = []"
      "store w' = snd (repoRemoveRule env (store w) r)"
      "calls w' = calls w @ RemoveRule r
          # (if fst (repoRemoveRule env (store w) r) = None then [FetchRules] else [])"
      "globalRules m' = globalRules m"
      "fst (repoRemoveRule env (store w) r) = None
         \<longrightarrow> rules m' = getCurrRules env (store w') \<and> footer m' = ''Rule removed successfully!''"
      "\<forall>e. fst (repoRemoveRule env (store w) r) = Some e
         \<longrightarrow> rules m' = rules m \<and> footer m' = ''Error removing rule: '' @ e"
      by (elim exE conjE)
    have n: "newCalls w w' = RemoveRule r
          # (if fst (repoRemoveRule env (store w) r) = None then [FetchRules] else [])"
      using h(5) by (simp add: newCalls_def)
    have "Update env (KeyMsg k) m w = Inr (m', CmdNil, w')
           \<and> \<not> confirmDelete m' \<and> deleteTarget m' = []
           \<and> ((\<exists>c\<in>set (newCalls w w'). isRemove c) \<longleftrightarrow> k = ''y'')
           \<and> hd (newCalls w w') = RemoveRule r"
      using upd h(1,2,3) n \<open>k = ''y''\<close> by (simp add: isRemove_def)
    then show ?thesis
      using True \<open>k = ''y''\<close> h(4-8)
      by (intro exI [of _ m'] exI [of _ w']) simp
  next
    case False
    then have g: "screen m = screenTrustGlobalRules" using assms(2) by simp
    from handleDeleteConfirm_globalRules [OF g assms(4), of env w]
    obtain m' w' where h:
      "handleDeleteConfirm env ''y'' m w = Inr (m', CmdNil, w')"
      "\<not> confirmDelete m'" "deleteTarget m' = []"
      "store w' = snd (repoRemoveGlobalRule env (store w) gr)"
      "calls w' = calls w @ RemoveGlobalRule gr
          # (if fst (repoRemoveGlobalRule env (store w) gr) = None
             then [FetchGlobalRules] else [])"
      "rules m' = rules m"
      "fst (repoRemoveGlobalRule env (store w) gr) = None
         \<longrightarrow> globalRules m' = getGlobalRules env (store w')
             \<and> footer m' = ''Global rule removed!''"
      "\<forall>e. fst (repoRemoveGlobalRule env (store w) gr) = Some e
         \<longrightarrow> globalRules m' = globalRules m
             \<and> footer m' = ''Error removing global rule: '' @ e"
      by (elim exE conjE)
    have n: "newCalls w w' = RemoveGlobalRule gr
          # (if fst (repoRemoveGlobalRule env (store w) gr) = None
             then [FetchGlobalRules] else [])"
      using h(5) by (simp add: newCalls_def)
    have "Update env (KeyMsg k) m w = Inr (m', CmdNil, w')
           \<and> \<not> confirmDelete m' \<and> deleteTarget m' = []
           \<and> ((\<exists>c\<in>set (newCalls w w'). isRemove c) \<longleftrightarrow> k = ''y'')
           \<and> hd (newCalls w w') = RemoveGlobalRule gr"
      using upd h(1,2,3) n \<open>k = ''y''\<close> by (simp add: isRemove_def)
    then show ?thesis
      using False g \<open>k = ''y''\<close> h(4-8)
      by (intro exI [of _ m'] exI [of _ w']) simp
  qed
qed

theorem delete_overlay_confirm_witness:
  "confirmDelete (demoModel\<lparr>confirmDelete := True, deleteTarget := ''R2''\<rparr>)
   \<and> screen (demoModel\<lparr>confirmDelete := True, deleteTarget := ''R2''\<rparr>) = screenPolicyRules
   \<and> (\<exists>m' w'. Update (memEnv None) (KeyMsg ''y'')
                  (demoModel\<lparr>confirmDelete := True, deleteTarget := ''R2''\<rparr>) demoWorld
                = Inr (m', CmdNil, w')
         \<and> \<not> confirmDelete m' \<and> deleteTarget m' = []
         \<and> store w' = ([ruleR1, ruleR3], [globalG1])
         \<and> calls w' = [RemoveRule \<lparr>name = ''R2'', pattern = [], key = []\<rparr>, FetchRules]
         \<and> rules m' = [ruleR1, ruleR3]
         \<and> footer m' = ''Rule removed successfully!'')
   \<and> (\<exists>m'. Update (memEnv None) (KeyMsg ''Y'')
               (demoModel\<lparr>confirmDelete := True, deleteTarget := ''R2''\<rparr>) demoWorld
             = Inr (m', CmdNil, demoWorld)
         \<and> \<not> confirmDelete m' \<and> rules m' = [ruleR1, ruleR2, ruleR3])"
proof -
  let ?m = "demoModel\<lparr>confirmDelete := True, deleteTarget := ''R2''\<rparr>"
  let ?r = "\<lparr>name = ''R2'', pattern = [], key = []\<rparr>"
  let ?gr = "\<lparr>ruleName = ''R2'', ruleType = [], rulePatterns = [], threshold = 0\<rparr>"
  have h1: "confirmDelete ?m" by simp
  have h2: "screen ?m = screenPolicyRules \<or> screen ?m = screenTrustGlobalRules"
    by (simp add: demoModel_fields)
  have h3: "?r = \<lparr>name = deleteTarget ?m, pattern = [], key = []\<rparr>" by simp
  have h4: "?gr = \<lparr>ruleName = deleteTarget ?m, ruleType = [], rulePatterns = [],
                   threshold = 0\<rparr>" by simp
  have w: "store demoWorld = ([ruleR1, ruleR2, ruleR3], [globalG1])" "calls demoWorld = []"
    by (simp_all add: demoWorld_def memWorld_def)
  have rm: "repoRemoveRule (memEnv None) ([ruleR1, ruleR2, ruleR3], [globalG1]) ?r
              = (None, ([ruleR1, ruleR3], [globalG1]))"
    by code_simp
  have gt: "getCurrRules (memEnv None) ([ruleR1, ruleR3], [globalG1]) = [ruleR1, ruleR3]"
    by (simp add: memEnv_def)
  from delete_overlay_confirm [OF h1 h2 h3 h4, of "memEnv None" "''y''" demoWorld]
  have a: "\<exists>m' w'. Update (memEnv None) (KeyMsg ''y'') ?m demoWorld = Inr (m', CmdNil, w')
         \<and> \<not> confirmDelete m' \<and> deleteTarget m' = []
         \<and> store w' = ([ruleR1, ruleR3], [globalG1])
         \<and> calls w' = [RemoveRule ?r, FetchRules]
         \<and> rules m' = [ruleR1, ruleR3]
         \<and> footer m' = ''Rule removed successfully!''"
    by (auto simp add: demoModel_fields w rm gt)
  from delete_overlay_confirm [OF h1 h2 h3 h4, of "memEnv None" "''Y''" demoWorld]
  have b: "\<exists>m'. Update (memEnv None) (KeyMsg ''Y'') ?m demoWorld = Inr (m', CmdNil, demoWorld)
         \<and> \<not> confirmDelete m' \<and> rules m' = [ruleR1, ruleR2, ruleR3]"
    by (auto simp add: demoModel_fields)
  show ?thesis using h1 a b by (simp add: demoModel_fields)
qed

text \<open>
  C5. In read-only mode, each of the keys \<^verbatim>\<open>a\<close>, \<^verbatim>\<open>e\<close>, \<^verbatim>\<open>d\<close>, \<^verbatim>\<open>u\<close>, \<^verbatim>\<open>k\<close>, \<^verbatim>\<open>j\<close> on the rules
  or the global-rules screen returns without a panic, leaves the world (store and call log)
  and both collections unchanged, and keeps the screen, which is no form screen.
\<close>

theorem read_only_keys_inert:
  assumes "readOnly m"
    and "screen m = screenPolicyRules \<or> screen m = screenTrustGlobalRules"
    and "k \<in> {''a'', ''e'', ''d'', ''u'', ''k'', ''j''}"
  shows "\<exists>m' c. Update env (KeyMsg k) m w = Inr (m', c, w)
           \<and> rules m' = rules m \<and> globalRules m' = globalRules m
           \<and> screen m' = screen m \<and> \<not> isFormScreen (screen m')"
proof (cases "confirmDelete m")
  case True
  have "k \<noteq> ''y''" using assms(3) by auto
  then have "Update env (KeyMsg k) m w
               = Inr (m\<lparr>confirmDelete := False, deleteTarget := []\<rparr>, CmdNil, w)"
    using True by (simp add: Update_key handleDeleteConfirm_other)
  then show ?thesis using assms(2) by (auto simp: isFormScreen_def)
next
  case False
  have "k \<noteq> ''ctrl+c''" "k \<noteq> ''q''" "k \<noteq> ''esc''" using assms(3) by auto
  then have "Update env (KeyMsg k) m w = delegateList env (KeyMsg k) m w"
    using False assms(1,2)
    by (simp add: Update_key screenKey_list handleRulesListKey_readOnly)
  moreover obtain m' c where "delegateList env (KeyMsg k) m w = Inr (m', c, w)"
    "rules m' = rules m" "globalRules m' = globalRules m" "screen m' = screen m"
    using delegateList_shape [of env "KeyMsg k" m w] by blast
  ultimately show ?thesis using assms(2) by (auto simp: isFormScreen_def)
qed

theorem read_only_keys_inert_witness:
  "readOnly (demoModel\<lparr>readOnly := True\<rparr>)
   \<and> screen (demoModel\<lparr>readOnly := True\<rparr>) = screenPolicyRules
   \<and> (\<exists>m' c. Update (memEnv None) (KeyMsg ''j'') (demoModel\<lparr>readOnly := True\<rparr>) demoWorld
                = Inr (m', c, demoWorld)
         \<and> rules m' = [ruleR1, ruleR2, ruleR3] \<and> globalRules m' = [globalG1]
         \<and> screen m' = screenPolicyRules)"
  using read_only_keys_inert [of "demoModel\<lparr>readOnly := True\<rparr>" "''j''" "memEnv None" demoWorld]
  by (auto simp add: demoModel_fields)




text \<open>The scenario of the specification, by keys: one rule R1, on the rules screen \<^verbatim>\<open>e\<close> and
  three times Enter.\<close>

lemma edit_scenario:
  "map_option calls
     (resWorld (session None [ruleR1] []
        [''enter'', ''enter'', ''e'', ''enter'', ''enter'', ''enter'']))
     = Some [FetchRules, FetchGlobalRules, FetchRules, UpdateRule ruleR1 [''alice''], FetchRules]
   \<and> map_option screen
     (resModel (session None [ruleR1] []
        [''enter'', ''enter'', ''e'', ''enter'', ''enter'', ''enter''])) = Some screenPolicyRules
   \<and> map_option footer
     (resModel (session None [ruleR1] []
        [''enter'', ''enter'', ''e'', ''enter'', ''enter'', ''enter'']))
     = Some ''Rule updated successfully!''"
  by code_simp

text \<open>
  C7. On a form screen (overlay closed; the focus index below the number of fields, as
  \<open>wellFormed\<close> has it), Enter away from the last field returns the model of a forward \<^verbatim>\<open>cycleFocus\<close>, whose focus index is one
  higher, with no command and the world unchanged; and whenever Enter makes a call to the
  repository, the focus index is the last one.
\<close>

theorem enter_advances_before_last_field:
  assumes "isFormScreen (screen m)" and "\<not> confirmDelete m"
    and "focusIndex m < int (length (inputs m))"
  shows "(focusIndex m \<noteq> int (length (inputs m)) - 1 \<longrightarrow>
            Update env (KeyMsg ''enter'') m w = Inr (cycleFocus ''tab'' m, CmdNil, w)
            \<and> focusIndex (cycleFocus ''tab'' m) = focusIndex m + 1)
       \<and> (\<forall>m' c w'. Update env (KeyMsg ''enter'') m w = Inr (m', c, w')
              \<and> newCalls w w' \<noteq> [] \<longrightarrow> focusIndex m = int (length (inputs m)) - 1)"
proof -
  have adv: "Update env (KeyMsg ''enter'') m w = Inr (cycleFocus ''tab'' m, CmdNil, w)
             \<and> focusIndex (cycleFocus ''tab'' m) = focusIndex m + 1"
    if "focusIndex m \<noteq> int (length (inputs m)) - 1"
  proof -
    have lt: "focusIndex m < int (length (inputs m)) - 1" using that assms(3) by linarith
    then show ?thesis
      using assms(1,2)
      by (simp add: Update_form_enter handlePolicyFormSubmit_advance
            handleGlobalFormSubmit_advance focusIndex_cycleFocus_forward)
  qed
  have only: "focusIndex m = int (length (inputs m)) - 1"
    if "Update env (KeyMsg ''enter'') m w = Inr (m', c, w')" "newCalls w w' \<noteq> []"
    for m' c w'
  proof (rule ccontr)
    assume "focusIndex m \<noteq> int (length (inputs m)) - 1"
    then have "Update env (KeyMsg ''enter'') m w = Inr (cycleFocus ''tab'' m, CmdNil, w)"
      using adv by blast
    then have "w' = w" using that(1) by simp
    then show False using that(2) by (simp add: newCalls_self)
  qed
  show ?thesis using adv only by blast
qed

theorem enter_advances_before_last_field_witness:
  "isFormScreen (screen ((initRuleInputs demoModel)\<lparr>screen := screenPolicyAddRule\<rparr>))
   \<and> Update (memEnv None) (KeyMsg ''enter'')
        ((initRuleInputs demoModel)\<lparr>screen := screenPolicyAddRule\<rparr>) demoWorld
      = Inr (cycleFocus ''tab'' ((initRuleInputs demoModel)\<lparr>screen := screenPolicyAddRule\<rparr>),
             CmdNil, demoWorld)
   \<and> focusIndex (cycleFocus ''tab'' ((initRuleInputs demoModel)\<lparr>screen := screenPolicyAddRule\<rparr>))
      = 1"
  using enter_advances_before_last_field
          [of "(initRuleInputs demoModel)\<lparr>screen := screenPolicyAddRule\<rparr>" "memEnv None" demoWorld]
  by (simp add: initRuleInputs_def initInputs_def ruleFields_def demoModel_fields
        isFormScreen_def)

text \<open>
  C8. Starting from focus index 0 on a form with at least one field, the focus index after
  \<open>N\<close> forward cycles (any key other than \<^verbatim>\<open>up\<close> and \<^verbatim>\<open>shift+tab\<close>) is \<open>N mod field_count\<close>;
  a forward cycle from the last index yields 0, and a backward cycle from index 0 yields
  the last index.
\<close>

theorem cycleFocus_forward_mod:
  assumes "inputs m \<noteq> []" and "focusIndex m = 0" and "k \<noteq> ''up''" and "k \<noteq> ''shift+tab''"
  shows "focusIndex ((cycleFocus k ^^ N) m) = int (N mod length (inputs m))
       \<and> focusIndex (cycleFocus k (m\<lparr>focusIndex := int (length (inputs m)) - 1\<rparr>)) = 0
       \<and> focusIndex (cycleFocus ''up'' m) = int (length (inputs m)) - 1
       \<and> focusIndex (cycleFocus ''shift+tab'' m) = int (length (inputs m)) - 1"
proof -
  let ?n = "length (inputs m)"
  have pos: "0 < ?n" using assms(1) by simp
  have iter: "focusIndex ((cycleFocus k ^^ N) m) = int (N mod ?n)"
  proof (induction N)
    case 0
    then show ?case using assms(2) by simp
  next
    case (Suc N)
    have lt: "N mod ?n < ?n" using pos by simp
    show ?case
    proof (cases "Suc (N mod ?n) = ?n")
      case True
      then have "Suc N mod ?n = 0" by (metis mod_Suc)
      moreover have "\<not> int (N mod ?n) < int ?n - 1" using True by linarith
      ultimately show ?thesis
        using Suc assms(3,4)
        by (simp add: focusIndex_cycleFocus_forward length_cycleFocus_funpow)
    next
      case False
      then have "Suc N mod ?n = Suc (N mod ?n)" by (metis mod_Suc)
      moreover have "int (N mod ?n) < int ?n - 1" using False lt by linarith
      ultimately show ?thesis
        using Suc assms(3,4)
        by (simp add: focusIndex_cycleFocus_forward length_cycleFocus_funpow)
    qed
  qed
  have wrap: "focusIndex (cycleFocus k (m\<lparr>focusIndex := int ?n - 1\<rparr>)) = 0"
    using assms(3,4) by (simp add: focusIndex_cycleFocus_forward)
  have bwd: "focusIndex (cycleFocus ''up'' m) = int ?n - 1"
    and "focusIndex (cycleFocus ''shift+tab'' m) = int ?n - 1"
    using assms(2) by (simp_all add: focusIndex_cycleFocus_backward)
  then show ?thesis using iter wrap by simp
qed

theorem cycleFocus_forward_mod_witness:
  "inputs (initRuleInputs demoModel) \<noteq> []
   \<and> focusIndex (initRuleInputs demoModel) = 0
   \<and> focusIndex ((cycleFocus ''tab'' ^^ 5) (initRuleInputs demoModel)) = 2
   \<and> focusIndex (cycleFocus ''tab'' ((initRuleInputs demoModel)\<lparr>focusIndex := 2\<rparr>)) = 0
   \<and> focusIndex (cycleFocus ''up'' (initRuleInputs demoModel)) = 2"
  using cycleFocus_forward_mod [of "initRuleInputs demoModel" "''tab''" 5]
  by (simp add: initRuleInputs_def initInputs_def ruleFields_def)




text \<open>The scenario of the specification, by keys: on the trust screen, \<^verbatim>\<open>a\<close>, the type
  \<^verbatim>\<open>threshold\<close>, the threshold \<^verbatim>\<open>2\<close>, Enter.\<close>

lemma threshold_scenario:
  "map_option (snd \<circ> store)
     (resWorld (session None [] []
        [''down'', ''enter'', ''enter'', ''a'', ''tab'',
         ''t'', ''h'', ''r'', ''e'', ''s'', ''h'', ''o'', ''l'', ''d'',
         ''tab'', ''tab'', ''2'', ''enter'']))
   = Some [\<lparr>ruleName = [], ruleType = ''threshold'', rulePatterns = [[]], threshold = 2\<rparr>]"
  by code_simp



end
